theory Spec2Isabelle
  imports Main "HOL-Library.List_Lexorder" "HOL-Library.Char_ord"
begin

section \<open>The ingredient catalog\<close>

text \<open>
  The program is one Python module, \<^verbatim>\<open>main.py\<close>. Python strings are modelled as
  \<open>string\<close>, one \<open>char\<close> per code point; all code points of the module's literals are
  below 256, the only one above 127 being U+00E9 in a cooking method. \<open>length\<close> is
  Python's \<^verbatim>\<open>len\<close> and the lexicographic order of lists over the order of \<open>char\<close>
  is Python's \<^verbatim>\<open><\<close> on such strings. Python's unbounded integers are \<open>int\<close>.

  A dict literal with fixed keys is a record. \<^verbatim>\<open>INGREDIENT_CATEGORIES\<close> is iterated
  with \<^verbatim>\<open>.values()\<close>, so it is an association list in insertion order (its keys are
  distinct), subscripted with \<open>map_of\<close>. \<^verbatim>\<open>INGREDIENT_PROFILES\<close> is only tested for
  membership and subscripted, so it is a map.
\<close>

record category =
  items :: "string list"
  tags :: "string list"

record profile =
  pairs_with :: "string list"
  flavor_profile :: "string list"
  cooking_methods :: "string list"

definition INGREDIENT_CATEGORIES :: "(string \<times> category) list" where
  "INGREDIENT_CATEGORIES =
    [(''Vegetables'',
        \<lparr>items = [''Tomato'', ''Onion'', ''Garlic'', ''Spinach'', ''Potato'', ''Carrot'',
                  ''Bell Pepper'', ''Mushroom''],
         tags = [''vegan'', ''vegetarian'', ''healthy'']\<rparr>),
     (''Proteins'',
        \<lparr>items = [''Eggs'', ''Chicken'', ''Tofu'', ''Beef'', ''Fish'', ''Lentils''],
         tags = [''high-protein'']\<rparr>),
     (''Dairy'',
        \<lparr>items = [''Milk'', ''Cheese'', ''Yogurt'', ''Butter''],
         tags = [''vegetarian'']\<rparr>),
     (''Pantry'',
        \<lparr>items = [''Rice'', ''Pasta'', ''Flour'', ''Oil'', ''Salt'', ''Pepper''],
         tags = [''staples'']\<rparr>),
     (''Herbs'',
        \<lparr>items = [''Basil'', ''Oregano'', ''Thyme'', ''Cilantro'', ''Parsley''],
         tags = [''flavor-enhancer'']\<rparr>)]"

definition INGREDIENT_PROFILES :: "string \<rightharpoonup> profile" where
  "INGREDIENT_PROFILES = map_of
    [(''Tomato'',
        \<lparr>pairs_with = [''Basil'', ''Garlic'', ''Onion'', ''Cheese''],
         flavor_profile = [''acidic'', ''sweet''],
         cooking_methods = [''raw'', ''roasted'', ''saut'' @ [CHR 0xE9] @ ''ed'']\<rparr>),
     (''Chicken'',
        \<lparr>pairs_with = [''Garlic'', ''Onion'', ''Bell Pepper'', ''Thyme''],
         flavor_profile = [''savory''],
         cooking_methods = [''grilled'', ''baked'', ''pan-fried'']\<rparr>)]"

section \<open>Errors\<close>

text \<open>
  Every exception the modelled code can raise is a value. A computation that may raise
  returns \<open>Raise e\<close> or \<open>Return v\<close>; where it also changes the program state, the state
  reached is returned beside the result, so that what an exception left behind is visible.
\<close>

datatype py_error =
  IndexError | KeyError | TypeError | AttributeError | JSONDecodeError | UnicodeDecodeError

datatype 'a result = Raise py_error | Return 'a

section \<open>Nutrition estimate\<close>

text \<open>
  \<^verbatim>\<open>analyze_nutrition(ingredients)\<close> builds a dict with the keys \<^verbatim>\<open>calories\<close>,
  \<^verbatim>\<open>protein\<close> and \<^verbatim>\<open>carbs\<close>, evaluated in this order. The subscriptions
  \<^verbatim>\<open>INGREDIENT_CATEGORIES['Proteins']\<close> and \<^verbatim>\<open>INGREDIENT_CATEGORIES['Pantry']\<close>
  stand in the condition of a list comprehension: they are evaluated once for each
  ingredient, so a missing key raises \<^verbatim>\<open>KeyError\<close> at the first ingredient and never
  on an empty list.
\<close>

record nutrition =
  calories :: int
  protein :: int
  carbs :: int

definition category_items :: "(string \<times> category) list \<Rightarrow> string \<Rightarrow> string list result" where
  "category_items cats name =
     (case map_of cats name of None \<Rightarrow> Raise KeyError | Some c \<Rightarrow> Return (items c))"

text \<open>\<^verbatim>\<open>len([i for i in ingredients if i in INGREDIENT_CATEGORIES[name]['items']])\<close>\<close>

definition count_members :: "(string \<times> category) list \<Rightarrow> string \<Rightarrow> string list \<Rightarrow> nat result" where
  "count_members cats name ingredients =
     (if ingredients = [] then Return 0
      else case category_items cats name of
             Raise e \<Rightarrow> Raise e
           | Return members \<Rightarrow> Return (length (filter (\<lambda>i. i \<in> set members) ingredients)))"

definition analyze_nutrition_in ::
  "(string \<times> category) list \<Rightarrow> string list \<Rightarrow> nutrition result" where
  "analyze_nutrition_in cats ingredients =
     (let cal = sum_list (map (\<lambda>ingredient. int (length ingredient) * 10) ingredients) in
      case count_members cats ''Proteins'' ingredients of
        Raise e \<Rightarrow> Raise e
      | Return proteins \<Rightarrow>
          (case count_members cats ''Pantry'' ingredients of
             Raise e \<Rightarrow> Raise e
           | Return pantry \<Rightarrow>
               Return \<lparr>calories = cal, protein = int proteins * 15, carbs = int pantry * 20\<rparr>))"

definition analyze_nutrition :: "string list \<Rightarrow> nutrition result" where
  "analyze_nutrition ingredients = analyze_nutrition_in INGREDIENT_CATEGORIES ingredients"

section \<open>Program state\<close>

text \<open>
  The manager's \<^verbatim>\<open>self.history\<close> is whatever \<^verbatim>\<open>json.load\<close> returned or what the program
  built since: a Python value made of \<^verbatim>\<open>None\<close>, booleans, integers, strings, lists and
  dicts with string keys. A dict is an association list in insertion order with
  distinct keys. Numbers with a fraction or an exponent (Python floats) are left out.
\<close>

datatype json =
  JNull | JBool bool | JInt int | JStr string | JList "json list" | JObj "(string \<times> json) list"

text \<open>
  One history entry is the dict \<^verbatim>\<open>add_recipe\<close> builds; \<open>entry_json\<close> is that dict literal,
  with its keys in the order of the source.
\<close>

record recipe_entry =
  recipe :: string
  timestamp :: string
  ingredients :: "string list"
  likes :: int
  dietary_tags :: "string list"

definition entry_json :: "recipe_entry \<Rightarrow> json" where
  "entry_json e =
     JObj [(''recipe'', JStr (recipe e)),
           (''timestamp'', JStr (timestamp e)),
           (''ingredients'', JList (map JStr (ingredients e))),
           (''likes'', JInt (likes e)),
           (''dietary_tags'', JList (map JStr (dietary_tags e)))]"

text \<open>
  The file \<^verbatim>\<open>recipe_history.json\<close> is written by \<^verbatim>\<open>json.dump\<close> and read by \<^verbatim>\<open>json.load\<close>
  of Python's standard library. The library is not part of the program; the model takes
  its contract: the text \<^verbatim>\<open>json.dump\<close> writes for a value of type \<open>json\<close> is read back
  by \<^verbatim>\<open>json.load\<close> as an equal value. So the content of the file is
  \<^item> \<open>Document v\<close>, a text that \<^verbatim>\<open>json.load\<close> parses to the value \<open>v\<close>, a history or not;
  \<^item> \<open>Malformed\<close>, a text that \<^verbatim>\<open>json.load\<close> rejects with \<^verbatim>\<open>JSONDecodeError\<close>;
  \<^item> \<open>Undecodable\<close>, bytes that are no text in the encoding of the file object, on which
    reading raises \<^verbatim>\<open>UnicodeDecodeError\<close>.

  \<open>None\<close> is the file missing from \<^verbatim>\<open>os.listdir('.')\<close>. Failures of the operating
  system while opening, reading or writing are not modelled.
\<close>

datatype file_content = Document json | Malformed | Undecodable

text \<open>
  The state the modelled code reads and writes: \<^verbatim>\<open>st.session_state.selected_ingredients\<close>,
  the manager's \<^verbatim>\<open>self.history\<close> and the file.
\<close>

record app_state =
  selected_ingredients :: "string list"
  history :: json
  history_file :: "file_content option"

section \<open>Selecting ingredients\<close>

text \<open>
  The sidebar loop of \<^verbatim>\<open>main\<close>: each item picked in a category's multiselect is appended
  to the selection unless the selection already holds it. The selection starts as the
  empty list.
\<close>

definition select_items :: "string list \<Rightarrow> app_state \<Rightarrow> app_state" where
  "select_items selected s =
     fold (\<lambda>item s.
             if item \<notin> set (selected_ingredients s)
             then s\<lparr>selected_ingredients := selected_ingredients s @ [item]\<rparr> else s)
          selected s"

section \<open>Dietary tags and cooking methods\<close>

text \<open>
  A Python \<^verbatim>\<open>set\<close> of strings is modelled by its table, a duplicate-free list in
  order of insertion. \<^verbatim>\<open>s.update(xs)\<close> adds the elements of \<open>xs\<close> that \<open>s\<close> lacks.
  \<^verbatim>\<open>list(s)\<close> enumerates the set in an order that Python fixes by the hashes of the
  strings, which change from one process to the next. In this section the list returned
  stands for the set: it is given in table order and the properties speak of \<open>set\<close> of
  the result only. The order is a parameter in the model on the store of objects below.
\<close>

definition set_update :: "'a list \<Rightarrow> 'a list \<Rightarrow> 'a list" where
  "set_update s xs = fold (\<lambda>x acc. if x \<in> set acc then acc else acc @ [x]) xs s"

text \<open>
  \<^verbatim>\<open>RecipeManager.get_dietary_tags\<close>: for each selected ingredient, for each category of
  the table, the category's tags are added when the ingredient is among its items.
\<close>

definition dietary_tags_in :: "(string \<times> category) list \<Rightarrow> string list \<Rightarrow> string list" where
  "dietary_tags_in cats selection =
     fold (\<lambda>ingredient all_tags.
             fold (\<lambda>category all_tags.
                     if ingredient \<in> set (items category)
                     then set_update all_tags (tags category) else all_tags)
                  (map snd cats) all_tags)
          selection []"

definition get_dietary_tags :: "app_state \<Rightarrow> string list \<times> app_state" where
  "get_dietary_tags s =
     (dietary_tags_in INGREDIENT_CATEGORIES (selected_ingredients s), s)"

text \<open>
  \<^verbatim>\<open>RecipeManager.get_cooking_methods\<close>: for each selected ingredient that is a key of
  the profile table, the profile's cooking methods are added.
\<close>

definition cooking_methods_in :: "(string \<rightharpoonup> profile) \<Rightarrow> string list \<Rightarrow> string list" where
  "cooking_methods_in profiles selection =
     fold (\<lambda>ingredient methods.
             case profiles ingredient of
               None \<Rightarrow> methods
             | Some p \<Rightarrow> set_update methods (cooking_methods p))
          selection []"

definition get_cooking_methods :: "app_state \<Rightarrow> string list \<times> app_state" where
  "get_cooking_methods s =
     (cooking_methods_in INGREDIENT_PROFILES (selected_ingredients s), s)"

section \<open>The history store\<close>

text \<open>
  \<^verbatim>\<open>RecipeManager.load_history\<close>; \<^verbatim>\<open>RecipeManager.__init__\<close> only calls it. Whatever
  \<^verbatim>\<open>json.load\<close> returns is assigned to \<^verbatim>\<open>self.history\<close>; nothing checks its shape.
\<close>

definition load_history :: "app_state \<Rightarrow> unit result \<times> app_state" where
  "load_history s =
     (case history_file s of
        Some (Document v) \<Rightarrow> (Return (), s\<lparr>history := v\<rparr>)
      | Some Malformed \<Rightarrow> (Raise JSONDecodeError, s)
      | Some Undecodable \<Rightarrow> (Raise UnicodeDecodeError, s)
      | None \<Rightarrow> (Return (), s\<lparr>history := JList []\<rparr>))"

text \<open>\<^verbatim>\<open>RecipeManager.save_history\<close>: the file is opened for writing and the whole
  history is dumped into it.\<close>

definition save_history :: "app_state \<Rightarrow> unit result \<times> app_state" where
  "save_history s = (Return (), s\<lparr>history_file := Some (Document (history s))\<rparr>)"

text \<open>
  \<^verbatim>\<open>RecipeManager.add_recipe(recipe_data)\<close>. The reading of the clock,
  \<^verbatim>\<open>datetime.now().isoformat()\<close>, is the parameter \<open>now\<close>. The entry refers to the
  list object of the selection; nothing changes that list between the append and the
  dump, so the entry is modelled with the value the list has at the call. The entry is
  built first; \<^verbatim>\<open>self.history.append\<close> then raises \<^verbatim>\<open>AttributeError\<close> when the history
  is not a list, before anything is changed.
\<close>

definition add_recipe :: "string \<Rightarrow> string \<Rightarrow> app_state \<Rightarrow> unit result \<times> app_state" where
  "add_recipe recipe_data now s =
     (let selected = selected_ingredients s;
          (computed_tags, s1) = get_dietary_tags s;
          recipe_entry = entry_json
            \<lparr>recipe = recipe_data, timestamp = now, ingredients = selected,
             likes = 0, dietary_tags = computed_tags\<rparr>
      in case history s1 of
           JList entries \<Rightarrow> save_history (s1\<lparr>history := JList (entries @ [recipe_entry])\<rparr>)
         | _ \<Rightarrow> (Raise AttributeError, s1))"

text \<open>
  \<^verbatim>\<open>d[k] = v\<close> on a dict: the value of a key already present is replaced in place, a
  new key is entered last.
\<close>

fun dict_set :: "string \<Rightarrow> json \<Rightarrow> (string \<times> json) list \<Rightarrow> (string \<times> json) list" where
  "dict_set k v [] = [(k, v)]"
| "dict_set k v ((k', v') # rest) =
     (if k' = k then (k, v) # rest else (k', v') # dict_set k v rest)"

text \<open>
  \<^verbatim>\<open>v + 1\<close>: defined on integers and on booleans, which are the integers 0 and 1;
  \<^verbatim>\<open>TypeError\<close> on \<^verbatim>\<open>None\<close>, a string, a list or a dict.
\<close>

definition add_one :: "json \<Rightarrow> json result" where
  "add_one v =
     (case v of
        JInt n \<Rightarrow> Return (JInt (n + 1))
      | JBool b \<Rightarrow> Return (JInt ((if b then 1 else 0) + 1))
      | _ \<Rightarrow> Raise TypeError)"

text \<open>
  The handler of the like button in \<^verbatim>\<open>main\<close>:
  \<^verbatim>\<open>recipe_manager.history[-1]['likes'] += 1\<close>, then \<^verbatim>\<open>recipe_manager.save_history()\<close>.
  The statement evaluates \<^verbatim>\<open>history[-1]\<close>, reads the key \<^verbatim>\<open>'likes'\<close> of the result,
  adds one and stores the sum under the key. Anything raised comes before the dict is
  changed or the file is written:
  \<^item> \<^verbatim>\<open>history[-1]\<close> raises \<^verbatim>\<open>IndexError\<close> on an empty list or string, \<^verbatim>\<open>KeyError\<close> on a
    dict (its keys are strings), \<^verbatim>\<open>TypeError\<close> on \<^verbatim>\<open>None\<close>, a boolean or an integer;
  \<^item> \<^verbatim>\<open>['likes']\<close> raises \<^verbatim>\<open>KeyError\<close> on a dict without the key and \<^verbatim>\<open>TypeError\<close> on
    anything that is not a dict (the last character of a string included).
\<close>

definition like_button :: "app_state \<Rightarrow> unit result \<times> app_state" where
  "like_button s =
     (case history s of
        JList h \<Rightarrow>
          if h = [] then (Raise IndexError, s)
          else
            (case last h of
               JObj entry \<Rightarrow>
                 (case map_of entry ''likes'' of
                    None \<Rightarrow> (Raise KeyError, s)
                  | Some v \<Rightarrow>
                      (case add_one v of
                         Raise e \<Rightarrow> (Raise e, s)
                       | Return v' \<Rightarrow>
                           save_history
                             (s\<lparr>history := JList (butlast h @ [JObj (dict_set ''likes'' v' entry)])\<rparr>)))
             | _ \<Rightarrow> (Raise TypeError, s))
      | JStr cs \<Rightarrow> if cs = [] then (Raise IndexError, s) else (Raise TypeError, s)
      | JObj d \<Rightarrow> (Raise KeyError, s)
      | _ \<Rightarrow> (Raise TypeError, s))"

section \<open>Popular combinations\<close>

text \<open>
  The counter \<^verbatim>\<open>combinations = defaultdict(int)\<close> is an association list in insertion
  order, as \<^verbatim>\<open>.items()\<close> enumerates it. \<^verbatim>\<open>combinations[k] += 1\<close> adds one to the count
  of a key already present, in place, and enters a new key last with the count 1.
\<close>

fun incr :: "'k \<Rightarrow> ('k \<times> int) list \<Rightarrow> ('k \<times> int) list" where
  "incr k [] = [(k, 1)]"
| "incr k ((k', c) # rest) =
     (if k' = k then (k', c + 1) # rest else (k', c) # incr k rest)"

definition entry_combinations ::
  "string list \<Rightarrow> ((string \<times> string) \<times> int) list \<Rightarrow> ((string \<times> string) \<times> int) list" where
  "entry_combinations ings combos =
     fold (\<lambda>i1 acc. fold (\<lambda>i2 acc. if i1 < i2 then incr (i1, i2) acc else acc) ings acc)
          ings combos"

definition combinations :: "recipe_entry list \<Rightarrow> ((string \<times> string) \<times> int) list" where
  "combinations h = fold (\<lambda>entry acc. entry_combinations (ingredients entry) acc) h []"

text \<open>
  \<^verbatim>\<open>sorted(xs, key=..., reverse=True)\<close> is a stable sort in descending order of the key:
  Python reverses the list, sorts it stably in ascending order and reverses the result.
  \<open>sort_key\<close> is a stable insertion sort.
\<close>

definition sorted_reverse :: "('a \<Rightarrow> int) \<Rightarrow> 'a list \<Rightarrow> 'a list" where
  "sorted_reverse key xs = rev (sort_key key (rev xs))"

text \<open>
  \<^verbatim>\<open>top_combos\<close> of \<^verbatim>\<open>main\<close>, computed only under \<^verbatim>\<open>if recipe_manager.history:\<close>; with
  an empty history nothing is computed or shown. The source slices with \<^verbatim>\<open>[:3]\<close>; the
  bound of the slice is the parameter of \<open>top_combos_upto\<close>.
\<close>

definition top_combos_upto :: "nat \<Rightarrow> recipe_entry list \<Rightarrow> ((string \<times> string) \<times> int) list" where
  "top_combos_upto k h =
     (if h = [] then [] else take k (sorted_reverse snd (combinations h)))"

definition top_combos :: "recipe_entry list \<Rightarrow> ((string \<times> string) \<times> int) list" where
  "top_combos h = top_combos_upto 3 h"

section \<open>The derivations on a store of objects\<close>

text \<open>
  Python lists and sets are objects: two names can refer to one list, and a method
  such as \<^verbatim>\<open>update\<close> or \<^verbatim>\<open>append\<close> changes the object for every name that refers to it.
  To say what the three derivations leave alone, they are modelled a second time on a
  store that maps addresses to the list and set objects of strings; a call may write to
  any address. A set object is kept as its table in insertion order, as above.
  \<open>next_addr\<close> is the first address not yet in use.

  The places of the named objects are the roots: the list
  \<^verbatim>\<open>st.session_state.selected_ingredients\<close>, for every category of
  \<^verbatim>\<open>INGREDIENT_CATEGORIES\<close> its \<^verbatim>\<open>items\<close> and \<^verbatim>\<open>tags\<close> lists, for every key of
  \<^verbatim>\<open>INGREDIENT_PROFILES\<close> its three lists. The dicts themselves are only subscripted and
  iterated by the three functions and are part of the roots. The lists a history entry
  refers to are further objects of the store.
\<close>

type_synonym addr = nat

record store =
  objects :: "addr \<Rightarrow> string list"
  next_addr :: addr

record roots =
  selection_at :: addr
  categories_at :: "(string \<times> addr \<times> addr) list"
  profiles_at :: "(string \<times> addr \<times> addr \<times> addr) list"

text \<open>A new object gets the next address.\<close>

definition alloc :: "string list \<Rightarrow> store \<Rightarrow> addr \<times> store" where
  "alloc v st =
     (next_addr st, st\<lparr>objects := (objects st)(next_addr st := v), next_addr := Suc (next_addr st)\<rparr>)"

text \<open>\<^verbatim>\<open>s.update(xs)\<close> on the set object at an address.\<close>

definition set_update_at :: "addr \<Rightarrow> string list \<Rightarrow> store \<Rightarrow> store" where
  "set_update_at a xs st = st\<lparr>objects := (objects st)(a := set_update (objects st a) xs)\<rparr>"

text \<open>
  \<^verbatim>\<open>RecipeManager.get_dietary_tags\<close>: \<^verbatim>\<open>all_tags = set()\<close> makes a new object, the loops
  read the selection and the lists of the categories in the store as it is at that
  moment and update the set object, and \<^verbatim>\<open>list(all_tags)\<close> makes a second new object,
  whose address is returned. \<open>enum\<close> is the order in which the process enumerates a
  set with the given table; Python fixes it by the hashes of the strings, which differ
  from one process to the next. A \<^verbatim>\<open>for\<close> loop over a list object is modelled as a loop
  over the content the object has when the loop starts.
\<close>

definition get_dietary_tags_on ::
  "(string list \<Rightarrow> string list) \<Rightarrow> roots \<Rightarrow> store \<Rightarrow> addr \<times> store" where
  "get_dietary_tags_on enum R st =
     (let (all_tags, st1) = alloc [] st;
          st2 = fold (\<lambda>ingredient st.
                        fold (\<lambda>(name, items_at, tags_at) st.
                                if ingredient \<in> set (objects st items_at)
                                then set_update_at all_tags (objects st tags_at) st else st)
                             (categories_at R) st)
                     (objects st1 (selection_at R)) st1
      in alloc (enum (objects st2 all_tags)) st2)"

text \<open>\<^verbatim>\<open>RecipeManager.get_cooking_methods\<close>, in the same way.\<close>

definition get_cooking_methods_on ::
  "(string list \<Rightarrow> string list) \<Rightarrow> roots \<Rightarrow> store \<Rightarrow> addr \<times> store" where
  "get_cooking_methods_on enum R st =
     (let (methods, st1) = alloc [] st;
          st2 = fold (\<lambda>ingredient st.
                        case map_of (profiles_at R) ingredient of
                          None \<Rightarrow> st
                        | Some (pairs_at, flavor_at, methods_at) \<Rightarrow>
                            set_update_at methods (objects st methods_at) st)
                     (objects st1 (selection_at R)) st1
      in alloc (enum (objects st2 methods)) st2)"

text \<open>
  \<^verbatim>\<open>[i for i in ingredients if i in INGREDIENT_CATEGORIES[name]['items']]\<close>: the
  comprehension makes a new list object and fills it; the subscription is evaluated for
  each ingredient and raises \<^verbatim>\<open>KeyError\<close> at the first one when the key is missing.
\<close>

definition members_on :: "roots \<Rightarrow> string \<Rightarrow> addr \<Rightarrow> store \<Rightarrow> addr result \<times> store" where
  "members_on R name ingredients_at st =
     (let ingredients = objects st ingredients_at;
          (members, st1) = alloc [] st
      in if ingredients = [] then (Return members, st1)
         else case map_of (categories_at R) name of
                None \<Rightarrow> (Raise KeyError, st1)
              | Some (items_at, tags_at) \<Rightarrow>
                  (Return members,
                   st1\<lparr>objects := (objects st1)
                      (members := filter (\<lambda>i. i \<in> set (objects st1 items_at)) ingredients)\<rparr>))"

text \<open>
  \<^verbatim>\<open>analyze_nutrition(ingredients)\<close>, with the address of the list it is given. The list
  of numbers that \<^verbatim>\<open>sum\<close> consumes holds no strings and is not an object of this store.
\<close>

definition analyze_nutrition_on :: "roots \<Rightarrow> addr \<Rightarrow> store \<Rightarrow> nutrition result \<times> store" where
  "analyze_nutrition_on R ingredients_at st =
     (let cal = sum_list (map (\<lambda>ingredient. int (length ingredient) * 10) (objects st ingredients_at))
      in case members_on R ''Proteins'' ingredients_at st of
           (Raise e, st1) \<Rightarrow> (Raise e, st1)
         | (Return proteins, st1) \<Rightarrow>
             (case members_on R ''Pantry'' ingredients_at st1 of
                (Raise e, st2) \<Rightarrow> (Raise e, st2)
              | (Return pantry, st2) \<Rightarrow>
                  (Return \<lparr>calories = cal,
                           protein = int (length (objects st2 proteins)) * 15,
                           carbs = int (length (objects st2 pantry)) * 20\<rparr>, st2)))"

section \<open>Notions used to state the properties\<close>

text \<open>The count a counter holds for a key, 0 for a key it lacks.\<close>

definition pair_count :: "('k \<times> int) list \<Rightarrow> 'k \<Rightarrow> int" where
  "pair_count combos p = (case map_of combos p of None \<Rightarrow> 0 | Some c \<Rightarrow> c)"

text \<open>The pairs one entry makes the loops of \<^verbatim>\<open>main\<close> count, in the order of the loops.\<close>

definition entry_pairs :: "string list \<Rightarrow> (string \<times> string) list" where
  "entry_pairs ings = concat (map (\<lambda>i1. map (\<lambda>i2. (i1, i2)) (filter (\<lambda>i2. i1 < i2) ings)) ings)"

definition history_pairs :: "recipe_entry list \<Rightarrow> (string \<times> string) list" where
  "history_pairs h = concat (map (\<lambda>entry. entry_pairs (ingredients entry)) h)"

text \<open>The elements of a list in the order of their first occurrence.\<close>

fun first_seen :: "'a list \<Rightarrow> 'a list" where
  "first_seen [] = []"
| "first_seen (x # xs) = x # removeAll x (first_seen xs)"

text \<open>
  The file format of the specification: an ordered sequence of entries, each with the
  five fields of \<open>recipe_entry\<close> and no other, the likes not negative. \<open>entries_of\<close>
  reads a value of this shape as the list of its entries and is \<open>None\<close> on any other
  value.
\<close>

fun string_of :: "json \<Rightarrow> string option" where
  "string_of (JStr x) = Some x"
| "string_of _ = None"

fun int_of :: "json \<Rightarrow> int option" where
  "int_of (JInt n) = Some n"
| "int_of _ = None"

fun those_strings :: "json list \<Rightarrow> string list option" where
  "those_strings [] = Some []"
| "those_strings (x # xs) =
     (case string_of x of
        None \<Rightarrow> None
      | Some y \<Rightarrow> (case those_strings xs of None \<Rightarrow> None | Some ys \<Rightarrow> Some (y # ys)))"

fun strings_of :: "json \<Rightarrow> string list option" where
  "strings_of (JList xs) = those_strings xs"
| "strings_of _ = None"

definition field :: "(string \<times> json) list \<Rightarrow> string \<Rightarrow> (json \<Rightarrow> 'a option) \<Rightarrow> 'a option" where
  "field d k read = (case map_of d k of None \<Rightarrow> None | Some v \<Rightarrow> read v)"

fun entry_of :: "json \<Rightarrow> recipe_entry option" where
  "entry_of (JObj d) =
     (case (field d ''recipe'' string_of, field d ''timestamp'' string_of,
            field d ''ingredients'' strings_of, field d ''likes'' int_of,
            field d ''dietary_tags'' strings_of) of
        (Some r, Some t, Some i, Some n, Some g) \<Rightarrow>
          if length d = 5 \<and> 0 \<le> n then
            Some \<lparr>recipe = r, timestamp = t, ingredients = i, likes = n, dietary_tags = g\<rparr>
          else None
      | _ \<Rightarrow> None)"
| "entry_of _ = None"

fun those_entries :: "json list \<Rightarrow> recipe_entry list option" where
  "those_entries [] = Some []"
| "those_entries (x # xs) =
     (case entry_of x of
        None \<Rightarrow> None
      | Some e \<Rightarrow> (case those_entries xs of None \<Rightarrow> None | Some es \<Rightarrow> Some (e # es)))"

fun entries_of :: "json \<Rightarrow> recipe_entry list option" where
  "entries_of (JList xs) = those_entries xs"
| "entries_of _ = None"

definition is_history :: "json \<Rightarrow> bool" where
  "is_history v = (entries_of v \<noteq> None)"

text \<open>
  The pair count in the specification's words: the selection of each entry is
  deduplicated before pairing, so an entry counts a pair once when it holds both names.
\<close>

definition spec_pair_count :: "recipe_entry list \<Rightarrow> string \<times> string \<Rightarrow> int" where
  "spec_pair_count h p =
     int (length (filter (\<lambda>entry. fst p \<in> set (remdups (ingredients entry)) \<and>
                                   snd p \<in> set (remdups (ingredients entry)) \<and> fst p < snd p) h))"

text \<open>The tables and the profiles as the store holds them.\<close>

definition catalog_of :: "roots \<Rightarrow> store \<Rightarrow> (string \<times> category) list" where
  "catalog_of R st =
     map (\<lambda>(name, items_at, tags_at).
            (name, \<lparr>items = objects st items_at, tags = objects st tags_at\<rparr>))
         (categories_at R)"

definition profiles_of :: "roots \<Rightarrow> store \<Rightarrow> (string \<rightharpoonup> profile)" where
  "profiles_of R st k =
     (case map_of (profiles_at R) k of
        None \<Rightarrow> None
      | Some (pairs_at, flavor_at, methods_at) \<Rightarrow>
          Some \<lparr>pairs_with = objects st pairs_at, flavor_profile = objects st flavor_at,
                cooking_methods = objects st methods_at\<rparr>)"

text \<open>All roots are objects in use.\<close>

definition allocated :: "roots \<Rightarrow> store \<Rightarrow> bool" where
  "allocated R st =
     (selection_at R < next_addr st
      \<and> (\<forall>(name, items_at, tags_at) \<in> set (categories_at R).
            items_at < next_addr st \<and> tags_at < next_addr st)
      \<and> (\<forall>(name, pairs_at, flavor_at, methods_at) \<in> set (profiles_at R).
            pairs_at < next_addr st \<and> flavor_at < next_addr st \<and> methods_at < next_addr st))"

text \<open>Every object in use in the first store is in the second, with the same content.\<close>

definition unchanged :: "store \<Rightarrow> store \<Rightarrow> bool" where
  "unchanged st st' =
     (next_addr st \<le> next_addr st' \<and> (\<forall>a < next_addr st. objects st' a = objects st a))"

text \<open>
  The store after the module is loaded and the selection is set: the lists of the two
  tables at the addresses 0 to 15, the selection at 16.
\<close>

definition module_objects :: "string list list" where
  "module_objects =
     concat (map (\<lambda>(name, category). [items category, tags category]) INGREDIENT_CATEGORIES)
     @ concat (map (\<lambda>name. case INGREDIENT_PROFILES name of
                               None \<Rightarrow> []
                             | Some p \<Rightarrow> [pairs_with p, flavor_profile p, cooking_methods p])
                   [''Tomato'', ''Chicken''])"

definition module_roots :: roots where
  "module_roots =
     \<lparr>selection_at = 16,
      categories_at = [(''Vegetables'', 0, 1), (''Proteins'', 2, 3), (''Dairy'', 4, 5),
                       (''Pantry'', 6, 7), (''Herbs'', 8, 9)],
      profiles_at = [(''Tomato'', 10, 11, 12), (''Chicken'', 13, 14, 15)]\<rparr>"

definition module_store :: "string list \<Rightarrow> store" where
  "module_store selected =
     \<lparr>objects = (\<lambda>a. if a < 16 then module_objects ! a else if a = 16 then selected else []),
      next_addr = 17\<rparr>"

text \<open>A write to one address, for the proofs.\<close>

definition put :: "addr \<Rightarrow> string list \<Rightarrow> store \<Rightarrow> store" where
  "put a v st = st\<lparr>objects := (objects st)(a := v)\<rparr>"

section \<open>Properties of the nutrition estimate\<close>

lemma category_items_Proteins:
  "category_items INGREDIENT_CATEGORIES ''Proteins'' =
     Return [''Eggs'', ''Chicken'', ''Tofu'', ''Beef'', ''Fish'', ''Lentils'']"
  by (simp add: category_items_def INGREDIENT_CATEGORIES_def)

lemma category_items_Pantry:
  "category_items INGREDIENT_CATEGORIES ''Pantry'' =
     Return [''Rice'', ''Pasta'', ''Flour'', ''Oil'', ''Salt'', ''Pepper'']"
  by (simp add: category_items_def INGREDIENT_CATEGORIES_def)

lemma analyze_nutrition_eq:
  "analyze_nutrition S =
     Return \<lparr>calories = sum_list (map (\<lambda>i. int (length i) * 10) S),
             protein = int (length (filter (\<lambda>i. i \<in> set [''Eggs'', ''Chicken'', ''Tofu'', ''Beef'', ''Fish'', ''Lentils'']) S)) * 15,
             carbs = int (length (filter (\<lambda>i. i \<in> set [''Rice'', ''Pasta'', ''Flour'', ''Oil'', ''Salt'', ''Pepper'']) S)) * 20\<rparr>"
  unfolding analyze_nutrition_def analyze_nutrition_in_def count_members_def
    category_items_Proteins category_items_Pantry
  by (simp add: Let_def)

lemma sum_count_list_Cons:
  "(\<Sum>p\<leftarrow>ps. count_list (x # S) p) = (\<Sum>p\<leftarrow>ps. count_list S p) + count_list ps x"
  by (induction ps) auto

lemma count_list_distinct:
  "distinct ps \<Longrightarrow> count_list ps x = (if x \<in> set ps then 1 else 0)"
  by (induction ps) auto

lemma length_filter_mem_count:
  "distinct ps \<Longrightarrow> length (filter (\<lambda>i. i \<in> set ps) S) = (\<Sum>p\<leftarrow>ps. count_list S p)"
  by (induction S) (simp_all add: sum_count_list_Cons count_list_distinct)

lemma sum_list_by_index: "sum_list (map f xs) = (\<Sum>k<length xs. f (xs ! k))"
  by (simp add: sum_list_sum_nth atLeast0LessThan)

text \<open>
  C4. For every selection sequence \<open>S\<close>, \<^verbatim>\<open>analyze_nutrition(S)\<close> returns (it raises
  nothing): the calories are the sum, over the positions of \<open>S\<close>, of 10 times the length
  of the name at that position; the protein is 15 times the number of positions of \<open>S\<close>
  holding an item of the Proteins category; the carbs are 20 times the number of
  positions holding an item of the Pantry category. The three figures are non-negative,
  the empty selection gives three zeros, and the calories of \<^verbatim>\<open>["Eggs"]\<close> are 40.
\<close>

theorem analyze_nutrition_figures:
  "analyze_nutrition S =
     Return \<lparr>calories = (\<Sum>k<length S. 10 * int (length (S ! k))),
             protein = 15 * int (card {k. k < length S \<and>
                 S ! k \<in> {''Eggs'', ''Chicken'', ''Tofu'', ''Beef'', ''Fish'', ''Lentils''}}),
             carbs = 20 * int (card {k. k < length S \<and>
                 S ! k \<in> {''Rice'', ''Pasta'', ''Flour'', ''Oil'', ''Salt'', ''Pepper''}})\<rparr>
   \<and> (\<exists>n. analyze_nutrition S = Return n \<and> 0 \<le> calories n \<and> 0 \<le> protein n \<and> 0 \<le> carbs n)
   \<and> analyze_nutrition [] = Return \<lparr>calories = 0, protein = 0, carbs = 0\<rparr>
   \<and> (\<exists>n. analyze_nutrition [''Eggs''] = Return n \<and> calories n = 40)"
proof -
  have cal: "sum_list (map (\<lambda>i. int (length i) * 10) S) = (\<Sum>k<length S. 10 * int (length (S ! k)))"
    by (simp add: sum_list_by_index mult.commute)
  have nonneg: "0 \<le> sum_list (map (\<lambda>i. int (length i) * 10) S)"
    by (rule sum_list_nonneg) auto
  have figures: "analyze_nutrition S =
     Return \<lparr>calories = (\<Sum>k<length S. 10 * int (length (S ! k))),
             protein = 15 * int (card {k. k < length S \<and>
                 S ! k \<in> {''Eggs'', ''Chicken'', ''Tofu'', ''Beef'', ''Fish'', ''Lentils''}}),
             carbs = 20 * int (card {k. k < length S \<and>
                 S ! k \<in> {''Rice'', ''Pasta'', ''Flour'', ''Oil'', ''Salt'', ''Pepper''}})\<rparr>"
    unfolding analyze_nutrition_eq length_filter_conv_card cal by simp
  have sign: "\<exists>n. analyze_nutrition S = Return n \<and> 0 \<le> calories n \<and> 0 \<le> protein n \<and> 0 \<le> carbs n"
    unfolding analyze_nutrition_eq using nonneg by simp
  have empty: "analyze_nutrition [] = Return \<lparr>calories = 0, protein = 0, carbs = 0\<rparr>"
    unfolding analyze_nutrition_eq by simp
  have eggs: "\<exists>n. analyze_nutrition [''Eggs''] = Return n \<and> calories n = 40"
    unfolding analyze_nutrition_eq by simp
  from figures sign empty eggs show ?thesis by blast
qed

text \<open>
  C10. The protein and carbs figures count a name once per occurrence in the selection
  sequence: each item \<open>p\<close> of the Proteins category adds 15 times the number of
  occurrences of \<open>p\<close> in \<open>S\<close> to the protein, each item of the Pantry category adds 20
  times the number of its occurrences to the carbs, and each name adds 10 times its
  length to the calories at every occurrence. The selection is deduplicated for none of
  the three.
\<close>

theorem analyze_nutrition_counts_occurrences:
  "analyze_nutrition S =
     Return \<lparr>calories = (\<Sum>i\<leftarrow>S. 10 * int (length i)),
             protein = (\<Sum>p\<leftarrow>[''Eggs'', ''Chicken'', ''Tofu'', ''Beef'', ''Fish'', ''Lentils''].
                          15 * int (count_list S p)),
             carbs = (\<Sum>p\<leftarrow>[''Rice'', ''Pasta'', ''Flour'', ''Oil'', ''Salt'', ''Pepper''].
                          20 * int (count_list S p))\<rparr>
   \<and> analyze_nutrition (replicate n ''Eggs'') =
       Return \<lparr>calories = 40 * int n, protein = 15 * int n, carbs = 0\<rparr>
   \<and> analyze_nutrition (replicate n ''Rice'') =
       Return \<lparr>calories = 40 * int n, protein = 0, carbs = 20 * int n\<rparr>"
proof -
  have cal: "sum_list (map (\<lambda>i. int (length i) * 10) S) = (\<Sum>i\<leftarrow>S. 10 * int (length i))"
    by (simp add: mult.commute)
  have pro: "length (filter (\<lambda>i. i \<in> set [''Eggs'', ''Chicken'', ''Tofu'', ''Beef'', ''Fish'', ''Lentils'']) S)
      = (\<Sum>p\<leftarrow>[''Eggs'', ''Chicken'', ''Tofu'', ''Beef'', ''Fish'', ''Lentils'']. count_list S p)"
    by (rule length_filter_mem_count) simp
  have carb: "length (filter (\<lambda>i. i \<in> set [''Rice'', ''Pasta'', ''Flour'', ''Oil'', ''Salt'', ''Pepper'']) S)
      = (\<Sum>p\<leftarrow>[''Rice'', ''Pasta'', ''Flour'', ''Oil'', ''Salt'', ''Pepper'']. count_list S p)"
    by (rule length_filter_mem_count) simp
  have general: "analyze_nutrition S =
     Return \<lparr>calories = (\<Sum>i\<leftarrow>S. 10 * int (length i)),
             protein = (\<Sum>p\<leftarrow>[''Eggs'', ''Chicken'', ''Tofu'', ''Beef'', ''Fish'', ''Lentils''].
                          15 * int (count_list S p)),
             carbs = (\<Sum>p\<leftarrow>[''Rice'', ''Pasta'', ''Flour'', ''Oil'', ''Salt'', ''Pepper''].
                          20 * int (count_list S p))\<rparr>"
    unfolding analyze_nutrition_eq pro carb cal by simp
  have eggs: "analyze_nutrition (replicate n ''Eggs'') =
       Return \<lparr>calories = 40 * int n, protein = 15 * int n, carbs = 0\<rparr>"
    unfolding analyze_nutrition_eq by (simp add: sum_list_replicate)
  have rice: "analyze_nutrition (replicate n ''Rice'') =
       Return \<lparr>calories = 40 * int n, protein = 0, carbs = 20 * int n\<rparr>"
    unfolding analyze_nutrition_eq by (simp add: sum_list_replicate)
  from general eggs rice show ?thesis by blast
qed

section \<open>Properties of the dietary tags and cooking methods\<close>

lemma set_set_update: "set (set_update s xs) = set s \<union> set xs"
  unfolding set_update_def by (induction xs arbitrary: s) auto

lemma set_category_loop:
  "set (fold (\<lambda>category all_tags.
               if ingredient \<in> set (items category)
               then set_update all_tags (tags category) else all_tags) cs acc)
   = set acc \<union> (\<Union>c\<in>{c \<in> set cs. ingredient \<in> set (items c)}. set (tags c))"
  by (induction cs arbitrary: acc) (auto simp: set_set_update)

lemma set_ingredient_loop:
  "set (fold (\<lambda>ingredient all_tags.
             fold (\<lambda>category all_tags.
                     if ingredient \<in> set (items category)
                     then set_update all_tags (tags category) else all_tags)
                  cs all_tags) S acc)
   = set acc \<union> (\<Union>i\<in>set S. \<Union>c\<in>{c \<in> set cs. i \<in> set (items c)}. set (tags c))"
proof (induction S arbitrary: acc)
  case Nil
  then show ?case by simp
next
  case (Cons i S)
  show ?case
    unfolding fold_Cons comp_apply Cons.IH set_category_loop by auto
qed

lemma set_dietary_tags_in:
  "set (dietary_tags_in cats S) =
     (\<Union>i\<in>set S. \<Union>c\<in>{c \<in> snd ` set cats. i \<in> set (items c)}. set (tags c))"
  unfolding dietary_tags_in_def set_ingredient_loop by simp

lemma set_cooking_loop:
  "set (fold (\<lambda>ingredient methods.
             case profiles ingredient of
               None \<Rightarrow> methods
             | Some p \<Rightarrow> set_update methods (cooking_methods p)) S acc)
   = set acc \<union> (\<Union>i\<in>set S. case profiles i of None \<Rightarrow> {} | Some p \<Rightarrow> set (cooking_methods p))"
  by (induction S arbitrary: acc) (auto simp: set_set_update split: option.splits)

lemma set_cooking_methods_in:
  "set (cooking_methods_in profiles S) =
     (\<Union>i\<in>set S. case profiles i of None \<Rightarrow> {} | Some p \<Rightarrow> set (cooking_methods p))"
  unfolding cooking_methods_in_def set_cooking_loop by simp


text \<open>
  C7. For every table of categories and every selection \<open>S\<close>, the tags
  \<^verbatim>\<open>get_dietary_tags\<close> resolves, as a set, are the union of the tags of exactly those
  categories that list some ingredient of \<open>S\<close>: an ingredient listed by several
  categories brings the tags of all of them. So the result is a subset of the union of
  all tag sets of the table, the empty selection gives no tag, and an ingredient that
  no category lists changes nothing. The function has no failing branch. On the
  shipped table the result lies within its six tags.
\<close>

theorem get_dietary_tags_union:
  "set (dietary_tags_in cats S) =
     (\<Union>i\<in>set S. \<Union>c\<in>{c \<in> snd ` set cats. i \<in> set (items c)}. set (tags c))
   \<and> set (dietary_tags_in cats S) \<subseteq> (\<Union>c\<in>snd ` set cats. set (tags c))
   \<and> dietary_tags_in cats [] = []
   \<and> ((\<forall>c\<in>snd ` set cats. i \<notin> set (items c)) \<longrightarrow>
        set (dietary_tags_in cats (S @ i # S')) = set (dietary_tags_in cats (S @ S')))
   \<and> get_dietary_tags s = (dietary_tags_in INGREDIENT_CATEGORIES (selected_ingredients s), s)
   \<and> set (fst (get_dietary_tags s)) \<subseteq>
        {''vegan'', ''vegetarian'', ''healthy'', ''high-protein'', ''staples'', ''flavor-enhancer''}"
proof -
  have all_tags: "(\<Union>c\<in>snd ` set INGREDIENT_CATEGORIES. set (tags c)) =
      {''vegan'', ''vegetarian'', ''healthy'', ''high-protein'', ''staples'', ''flavor-enhancer''}"
    by (auto simp: INGREDIENT_CATEGORIES_def)
  have sub: "set (dietary_tags_in cs T) \<subseteq> (\<Union>c\<in>snd ` set cs. set (tags c))" for cs T
    unfolding set_dietary_tags_in by blast
  have empty: "dietary_tags_in cats [] = []"
    by (simp add: dietary_tags_in_def)
  have miss: "(\<forall>c\<in>snd ` set cats. i \<notin> set (items c)) \<longrightarrow>
        set (dietary_tags_in cats (S @ i # S')) = set (dietary_tags_in cats (S @ S'))"
    unfolding set_dietary_tags_in by auto
  have shipped: "set (fst (get_dietary_tags s)) \<subseteq>
        {''vegan'', ''vegetarian'', ''healthy'', ''high-protein'', ''staples'', ''flavor-enhancer''}"
    using sub [of INGREDIENT_CATEGORIES "selected_ingredients s"]
    unfolding all_tags by (simp add: get_dietary_tags_def)
  have shape: "get_dietary_tags s = (dietary_tags_in INGREDIENT_CATEGORIES (selected_ingredients s), s)"
    by (simp add: get_dietary_tags_def)
  show ?thesis
    by (intro conjI) (rule set_dietary_tags_in, rule sub, rule empty, rule miss, rule shape, rule shipped)
qed

text \<open>
  An instance: \<open>Durian\<close> is in no category of the table below and \<open>Tofu\<close> is in both.
\<close>

theorem get_dietary_tags_union_witness:
  "set (dietary_tags_in
         [(''Proteins'', \<lparr>items = [''Tofu'', ''Eggs''], tags = [''high-protein'']\<rparr>),
          (''Vegan'', \<lparr>items = [''Tofu''], tags = [''vegan'', ''vegetarian'']\<rparr>)]
         [''Eggs'', ''Durian'', ''Tofu''])
     = {''high-protein'', ''vegan'', ''vegetarian''}"
proof -
  let ?cats = "[(''Proteins'', \<lparr>items = [''Tofu'', ''Eggs''], tags = [''high-protein'']\<rparr>),
                (''Vegan'', \<lparr>items = [''Tofu''], tags = [''vegan'', ''vegetarian'']\<rparr>)]"
  have unknown: "\<forall>c\<in>snd ` set ?cats. ''Durian'' \<notin> set (items c)"
    by simp
  have without: "dietary_tags_in ?cats ([''Eggs''] @ [''Tofu'']) = [''high-protein'', ''vegan'', ''vegetarian'']"
    by (simp add: dietary_tags_in_def set_update_def)
  have "set (dietary_tags_in ?cats ([''Eggs''] @ ''Durian'' # [''Tofu''])) =
        set (dietary_tags_in ?cats ([''Eggs''] @ [''Tofu'']))"
    by (rule get_dietary_tags_union [of ?cats "[''Eggs'']" "''Durian''" "[''Tofu'']",
          THEN conjunct2, THEN conjunct2, THEN conjunct2, THEN conjunct1, THEN mp, OF unknown])
  then show ?thesis
    unfolding without by simp
qed

text \<open>
  C8. For every profile table and every selection \<open>S\<close>, the methods
  \<^verbatim>\<open>get_cooking_methods\<close> suggests, as a set, are the union of the cooking methods of
  exactly those ingredients of \<open>S\<close> that have a profile. An ingredient without a
  profile changes nothing; when no ingredient has one, the empty list is returned
  as an ordinary value, beside the unchanged state.
\<close>

theorem get_cooking_methods_union:
  "set (cooking_methods_in profiles S) =
     (\<Union>i\<in>set S. case profiles i of None \<Rightarrow> {} | Some p \<Rightarrow> set (cooking_methods p))
   \<and> ((\<forall>i\<in>set S. profiles i = None) \<longrightarrow> cooking_methods_in profiles S = [])
   \<and> (profiles i = None \<longrightarrow>
        set (cooking_methods_in profiles (S @ i # S')) = set (cooking_methods_in profiles (S @ S')))
   \<and> get_cooking_methods s = (cooking_methods_in INGREDIENT_PROFILES (selected_ingredients s), s)"
proof -
  have none: "(\<forall>i\<in>set S. profiles i = None) \<longrightarrow> cooking_methods_in profiles S = []"
  proof
    assume "\<forall>i\<in>set S. profiles i = None"
    then have "set (cooking_methods_in profiles S) = {}"
      unfolding set_cooking_methods_in by simp
    then show "cooking_methods_in profiles S = []" by simp
  qed
  have miss: "profiles i = None \<longrightarrow>
        set (cooking_methods_in profiles (S @ i # S')) = set (cooking_methods_in profiles (S @ S'))"
    unfolding set_cooking_methods_in by auto
  show ?thesis
    using set_cooking_methods_in [of profiles S] none miss
    by (simp add: get_cooking_methods_def)
qed

text \<open>An instance on the shipped profiles: \<open>Eggs\<close> and \<open>Milk\<close> have none.\<close>

theorem get_cooking_methods_union_witness:
  "cooking_methods_in INGREDIENT_PROFILES [''Eggs'', ''Milk''] = []
   \<and> get_cooking_methods \<lparr>selected_ingredients = [''Eggs'', ''Milk''], history = JList [], history_file = None\<rparr>
       = ([], \<lparr>selected_ingredients = [''Eggs'', ''Milk''], history = JList [], history_file = None\<rparr>)
   \<and> set (cooking_methods_in INGREDIENT_PROFILES [''Chicken'', ''Eggs'']) = {''grilled'', ''baked'', ''pan-fried''}
   \<and> set (cooking_methods_in INGREDIENT_PROFILES [''Chicken'']) = {''grilled'', ''baked'', ''pan-fried''}"
proof -
  have none: "\<forall>i\<in>set [''Eggs'', ''Milk'']. INGREDIENT_PROFILES i = None"
    by (simp add: INGREDIENT_PROFILES_def)
  have eggs: "INGREDIENT_PROFILES ''Eggs'' = None"
    by (simp add: INGREDIENT_PROFILES_def)
  have chicken: "INGREDIENT_PROFILES ''Chicken'' =
      Some \<lparr>pairs_with = [''Garlic'', ''Onion'', ''Bell Pepper'', ''Thyme''],
            flavor_profile = [''savory''],
            cooking_methods = [''grilled'', ''baked'', ''pan-fried'']\<rparr>"
    by (simp add: INGREDIENT_PROFILES_def)
  show ?thesis
    using get_cooking_methods_union
      [of INGREDIENT_PROFILES "[''Eggs'', ''Milk'']" "''Eggs''" "[]"
          "\<lparr>selected_ingredients = [''Eggs'', ''Milk''], history = JList [], history_file = None\<rparr>"]
      get_cooking_methods_union
      [of INGREDIENT_PROFILES "[''Chicken'']" "''Eggs''" "[]"]
      none eggs chicken
    by (simp add: insert_commute)
qed

section \<open>Properties of the derivations on the store\<close>

lemma put_put: "put a v (put a w st) = put a v st"
  by (simp add: put_def)

lemma objects_put: "objects (put a v st) b = (if b = a then v else objects st b)"
  by (simp add: put_def)

lemma objects_put_same: "objects (put a v st) a = v"
  by (simp add: put_def)

lemma objects_put_other: "b \<noteq> a \<Longrightarrow> objects (put a v st) b = objects st b"
  by (simp add: put_def)

lemma next_addr_put: "next_addr (put a v st) = next_addr st"
  by (simp add: put_def)

lemma put_same: "put a (objects st a) st = st"
  by (simp add: put_def)

lemma set_update_at_put: "set_update_at a xs st = put a (set_update (objects st a) xs) st"
  by (simp add: set_update_at_def put_def)

lemma category_loop_on:
  assumes "\<forall>(name, items_at, tags_at) \<in> set cs. items_at \<noteq> A \<and> tags_at \<noteq> A"
  shows "fold (\<lambda>(name, items_at, tags_at) st.
                 if ingredient \<in> set (objects st items_at)
                 then set_update_at A (objects st tags_at) st else st) cs st
       = put A (fold (\<lambda>category all_tags.
                        if ingredient \<in> set (items category)
                        then set_update all_tags (tags category) else all_tags)
                     (map (\<lambda>(name, items_at, tags_at).
                             \<lparr>items = objects st items_at, tags = objects st tags_at\<rparr>) cs)
                     (objects st A)) st"
  using assms
proof (induction cs arbitrary: st)
  case Nil
  then show ?case by (simp add: put_same)
next
  case (Cons c cs)
  obtain name i t where c: "c = (name, i, t)" by (cases c)
  from Cons.prems c have i: "i \<noteq> A" and t: "t \<noteq> A"
    and rest: "\<forall>(name, items_at, tags_at) \<in> set cs. items_at \<noteq> A \<and> tags_at \<noteq> A"
    by auto
  have same: "map (\<lambda>(name, items_at, tags_at).
                \<lparr>items = objects (put A v st) items_at, tags = objects (put A v st) tags_at\<rparr>) cs
            = map (\<lambda>(name, items_at, tags_at).
                \<lparr>items = objects st items_at, tags = objects st tags_at\<rparr>) cs" for v
    using rest by (intro map_cong) (auto simp: objects_put)
  show ?case
    unfolding c using i t
    by (simp add: Cons.IH [OF rest] set_update_at_put same objects_put_same put_put)
qed

lemma ingredient_loop_on:
  assumes "\<forall>(name, items_at, tags_at) \<in> set cs. items_at \<noteq> A \<and> tags_at \<noteq> A"
  shows "fold (\<lambda>ingredient st.
                 fold (\<lambda>(name, items_at, tags_at) st.
                         if ingredient \<in> set (objects st items_at)
                         then set_update_at A (objects st tags_at) st else st) cs st) sel st
       = put A (fold (\<lambda>ingredient all_tags.
                        fold (\<lambda>category all_tags.
                                if ingredient \<in> set (items category)
                                then set_update all_tags (tags category) else all_tags)
                             (map (\<lambda>(name, items_at, tags_at).
                                     \<lparr>items = objects st items_at, tags = objects st tags_at\<rparr>) cs)
                             all_tags)
                     sel (objects st A)) st"
proof (induction sel arbitrary: st)
  case Nil
  then show ?case by (simp add: put_same)
next
  case (Cons ingredient sel)
  let ?cats = "\<lambda>st. map (\<lambda>(name, items_at, tags_at).
                  \<lparr>items = objects st items_at, tags = objects st tags_at\<rparr>) cs"
  let ?inner = "\<lambda>ingredient st.
                 fold (\<lambda>(name, items_at, tags_at) st.
                         if ingredient \<in> set (objects st items_at)
                         then set_update_at A (objects st tags_at) st else st) cs st"
  let ?plain = "\<lambda>cats ingredient all_tags.
                  fold (\<lambda>category all_tags.
                          if ingredient \<in> set (items category)
                          then set_update all_tags (tags category) else all_tags) cats all_tags"
  let ?X = "?plain (?cats st) ingredient (objects st A)"
  have same: "?cats (put A v st) = ?cats st" for v
    using assms by (intro map_cong) (auto simp: objects_put)
  have step: "?inner ingredient st = put A ?X st"
    by (rule category_loop_on [OF assms])
  have "fold ?inner (ingredient # sel) st = fold ?inner sel (?inner ingredient st)"
    by simp
  also have "\<dots> = fold ?inner sel (put A ?X st)"
    by (simp only: step)
  also have "\<dots> = put A (fold (?plain (?cats (put A ?X st))) sel (objects (put A ?X st) A)) (put A ?X st)"
    by (rule Cons.IH)
  also have "\<dots> = put A (fold (?plain (?cats st)) sel ?X) st"
    by (simp only: same objects_put_same put_put)
  also have "\<dots> = put A (fold (?plain (?cats st)) (ingredient # sel) (objects st A)) st"
    by simp
  finally show ?case .
qed

lemma map_snd_catalog_of:
  "map snd (catalog_of R st) =
     map (\<lambda>(name, items_at, tags_at).
            \<lparr>items = objects st items_at, tags = objects st tags_at\<rparr>) (categories_at R)"
  by (simp add: catalog_of_def case_prod_unfold comp_def)

lemma catalog_of_cong:
  assumes "\<forall>(name, items_at, tags_at) \<in> set (categories_at R).
             objects st' items_at = objects st items_at \<and> objects st' tags_at = objects st tags_at"
  shows "catalog_of R st' = catalog_of R st"
  unfolding catalog_of_def using assms by (intro map_cong) auto

lemma get_dietary_tags_on_eq:
  assumes "allocated R st"
  shows "get_dietary_tags_on enum R st =
     (Suc (next_addr st),
      st\<lparr>objects := (objects st)
           (next_addr st := dietary_tags_in (catalog_of R st) (objects st (selection_at R)),
            Suc (next_addr st) :=
              enum (dietary_tags_in (catalog_of R st) (objects st (selection_at R)))),
         next_addr := Suc (Suc (next_addr st))\<rparr>)"
proof -
  let ?A = "next_addr st"
  let ?st1 = "st\<lparr>objects := (objects st)(?A := []), next_addr := Suc ?A\<rparr>"
  let ?T = "dietary_tags_in (catalog_of R st) (objects st (selection_at R))"
  from assms have sel: "selection_at R \<noteq> ?A"
    and cs: "\<forall>(name, items_at, tags_at) \<in> set (categories_at R). items_at \<noteq> ?A \<and> tags_at \<noteq> ?A"
    by (auto simp: allocated_def)
  have cat: "catalog_of R ?st1 = catalog_of R st"
    using cs by (intro catalog_of_cong) auto
  have sel1: "objects ?st1 (selection_at R) = objects st (selection_at R)"
    using sel by simp
  have loop: "fold (\<lambda>ingredient st.
                 fold (\<lambda>(name, items_at, tags_at) st.
                         if ingredient \<in> set (objects st items_at)
                         then set_update_at ?A (objects st tags_at) st else st)
                      (categories_at R) st)
              (objects ?st1 (selection_at R)) ?st1
            = put ?A ?T ?st1"
    unfolding ingredient_loop_on [OF cs] map_snd_catalog_of [symmetric] cat sel1
    by (simp add: dietary_tags_in_def)
  have "get_dietary_tags_on enum R st = alloc (enum (objects (put ?A ?T ?st1) ?A)) (put ?A ?T ?st1)"
    unfolding get_dietary_tags_on_def alloc_def [of "[]"] Let_def prod.case loop ..
  then show ?thesis
    by (simp add: alloc_def put_def)
qed


lemma profiles_of_cong:
  assumes "\<forall>(name, pairs_at, flavor_at, methods_at) \<in> set (profiles_at R).
             objects st' pairs_at = objects st pairs_at
             \<and> objects st' flavor_at = objects st flavor_at
             \<and> objects st' methods_at = objects st methods_at"
  shows "profiles_of R st' = profiles_of R st"
proof
  fix k
  show "profiles_of R st' k = profiles_of R st k"
  proof (cases "map_of (profiles_at R) k")
    case None
    then show ?thesis by (simp add: profiles_of_def)
  next
    case (Some v)
    obtain p f m where v: "v = (p, f, m)" by (cases v)
    from Some v have "(k, p, f, m) \<in> set (profiles_at R)" by (auto dest: map_of_SomeD)
    with assms have "objects st' p = objects st p \<and> objects st' f = objects st f
        \<and> objects st' m = objects st m" by auto
    with Some v show ?thesis by (simp add: profiles_of_def)
  qed
qed

lemma methods_loop_on:
  assumes "\<forall>(name, pairs_at, flavor_at, methods_at) \<in> set (profiles_at R).
             pairs_at \<noteq> A \<and> flavor_at \<noteq> A \<and> methods_at \<noteq> A"
  shows "fold (\<lambda>ingredient st.
                 case map_of (profiles_at R) ingredient of
                   None \<Rightarrow> st
                 | Some (pairs_at, flavor_at, methods_at) \<Rightarrow>
                     set_update_at A (objects st methods_at) st) sel st
       = put A (fold (\<lambda>ingredient methods.
                        case profiles_of R st ingredient of
                          None \<Rightarrow> methods
                        | Some p \<Rightarrow> set_update methods (cooking_methods p))
                     sel (objects st A)) st"
proof (induction sel arbitrary: st)
  case Nil
  then show ?case by (simp add: put_same)
next
  case (Cons ingredient sel)
  let ?step = "\<lambda>ingredient st.
                 case map_of (profiles_at R) ingredient of
                   None \<Rightarrow> st
                 | Some (pairs_at, flavor_at, methods_at) \<Rightarrow>
                     set_update_at A (objects st methods_at) st"
  let ?plain = "\<lambda>profiles ingredient methods.
                  case profiles ingredient of
                    None \<Rightarrow> methods
                  | Some p \<Rightarrow> set_update methods (cooking_methods p)"
  let ?X = "?plain (profiles_of R st) ingredient (objects st A)"
  have same: "profiles_of R (put A v st) = profiles_of R st" for v
    using assms by (intro profiles_of_cong) (auto simp: objects_put)
  have step: "?step ingredient st = put A ?X st"
    by (auto simp: profiles_of_def set_update_at_put put_same split: option.splits)
  have "fold ?step (ingredient # sel) st = fold ?step sel (?step ingredient st)"
    by simp
  also have "\<dots> = fold ?step sel (put A ?X st)"
    by (simp only: step)
  also have "\<dots> = put A (fold (?plain (profiles_of R (put A ?X st))) sel
                            (objects (put A ?X st) A)) (put A ?X st)"
    by (rule Cons.IH)
  also have "\<dots> = put A (fold (?plain (profiles_of R st)) sel ?X) st"
    by (simp only: same objects_put_same put_put)
  also have "\<dots> = put A (fold (?plain (profiles_of R st)) (ingredient # sel) (objects st A)) st"
    by simp
  finally show ?case .
qed

lemma get_cooking_methods_on_eq:
  assumes "allocated R st"
  shows "get_cooking_methods_on enum R st =
     (Suc (next_addr st),
      st\<lparr>objects := (objects st)
           (next_addr st := cooking_methods_in (profiles_of R st) (objects st (selection_at R)),
            Suc (next_addr st) :=
              enum (cooking_methods_in (profiles_of R st) (objects st (selection_at R)))),
         next_addr := Suc (Suc (next_addr st))\<rparr>)"
proof -
  let ?A = "next_addr st"
  let ?st1 = "st\<lparr>objects := (objects st)(?A := []), next_addr := Suc ?A\<rparr>"
  let ?T = "cooking_methods_in (profiles_of R st) (objects st (selection_at R))"
  from assms have sel: "selection_at R \<noteq> ?A"
    and ps: "\<forall>(name, pairs_at, flavor_at, methods_at) \<in> set (profiles_at R).
               pairs_at \<noteq> ?A \<and> flavor_at \<noteq> ?A \<and> methods_at \<noteq> ?A"
    by (auto simp: allocated_def)
  have prof: "profiles_of R ?st1 = profiles_of R st"
    using ps by (intro profiles_of_cong) auto
  have sel1: "objects ?st1 (selection_at R) = objects st (selection_at R)"
    using sel by simp
  have loop: "fold (\<lambda>ingredient st.
                 case map_of (profiles_at R) ingredient of
                   None \<Rightarrow> st
                 | Some (pairs_at, flavor_at, methods_at) \<Rightarrow>
                     set_update_at ?A (objects st methods_at) st)
              (objects ?st1 (selection_at R)) ?st1
            = put ?A ?T ?st1"
    unfolding methods_loop_on [OF ps] prof sel1
    by (simp add: cooking_methods_in_def)
  have "get_cooking_methods_on enum R st =
      alloc (enum (objects (put ?A ?T ?st1) ?A)) (put ?A ?T ?st1)"
    unfolding get_cooking_methods_on_def alloc_def [of "[]"] Let_def prod.case loop ..
  then show ?thesis
    by (simp add: alloc_def put_def)
qed

lemma map_of_read_categories:
  "map_of (map (\<lambda>(name, items_at, tags_at).
                  (name, \<lparr>items = objects st items_at, tags = objects st tags_at\<rparr>)) cs) name =
     (case map_of cs name of
        None \<Rightarrow> None
      | Some (items_at, tags_at) \<Rightarrow>
          Some \<lparr>items = objects st items_at, tags = objects st tags_at\<rparr>)"
  by (induction cs) auto

lemma map_of_catalog_of:
  "map_of (catalog_of R st) name =
     (case map_of (categories_at R) name of
        None \<Rightarrow> None
      | Some (items_at, tags_at) \<Rightarrow>
          Some \<lparr>items = objects st items_at, tags = objects st tags_at\<rparr>)"
  unfolding catalog_of_def by (rule map_of_read_categories)

lemma members_on_eq:
  assumes "allocated R st" and "ingredients_at < next_addr st"
  shows "members_on R name ingredients_at st =
     (case count_members (catalog_of R st) name (objects st ingredients_at) of
        Raise e \<Rightarrow> (Raise e, snd (alloc [] st))
      | Return n \<Rightarrow>
          (Return (next_addr st),
           snd (alloc (if objects st ingredients_at = [] then []
                       else case category_items (catalog_of R st) name of
                              Raise e \<Rightarrow> []
                            | Return members \<Rightarrow>
                                filter (\<lambda>i. i \<in> set members) (objects st ingredients_at)) st)))"
proof (cases "map_of (categories_at R) name")
  case None
  then show ?thesis
    by (simp add: members_on_def alloc_def count_members_def category_items_def
        map_of_catalog_of Let_def)
next
  case (Some v)
  obtain i t where v: "v = (i, t)" by (cases v)
  from Some v have "(name, i, t) \<in> set (categories_at R)" by (auto dest: map_of_SomeD)
  with assms(1) have "i \<noteq> next_addr st" by (auto simp: allocated_def)
  with Some v assms(2) show ?thesis
    by (simp add: members_on_def alloc_def count_members_def category_items_def
        map_of_catalog_of Let_def)
qed

lemma count_members_length:
  "count_members cats name S = Return n \<Longrightarrow>
   n = length (if S = [] then []
               else case category_items cats name of
                      Raise e \<Rightarrow> []
                    | Return members \<Rightarrow> filter (\<lambda>i. i \<in> set members) S)"
  by (auto simp: count_members_def split: if_splits result.splits)

lemma allocated_alloc: "allocated R st \<Longrightarrow> allocated R (snd (alloc v st))"
  by (fastforce simp: allocated_def alloc_def)

lemma catalog_of_alloc: "allocated R st \<Longrightarrow> catalog_of R (snd (alloc v st)) = catalog_of R st"
  by (intro catalog_of_cong) (fastforce simp: allocated_def alloc_def)

lemma objects_alloc_new: "objects (snd (alloc v st)) (next_addr st) = v"
  by (simp add: alloc_def)

lemma objects_alloc_old: "a < next_addr st \<Longrightarrow> objects (snd (alloc v st)) a = objects st a"
  by (simp add: alloc_def)

lemma next_addr_alloc: "next_addr (snd (alloc v st)) = Suc (next_addr st)"
  by (simp add: alloc_def)

lemma unchanged_refl: "unchanged st st"
  by (simp add: unchanged_def)

lemma unchanged_trans: "unchanged st st' \<Longrightarrow> unchanged st' st'' \<Longrightarrow> unchanged st st''"
  by (auto simp: unchanged_def)

lemma unchanged_alloc: "unchanged st (snd (alloc v st))"
  by (simp add: unchanged_def alloc_def)

lemma analyze_nutrition_on_eq:
  assumes "allocated R st" and "ingredients_at < next_addr st"
  shows "fst (analyze_nutrition_on R ingredients_at st) =
           analyze_nutrition_in (catalog_of R st) (objects st ingredients_at)"
    and "unchanged st (snd (analyze_nutrition_on R ingredients_at st))"
proof -
  let ?ing = "objects st ingredients_at"
  let ?cats = "catalog_of R st"
  let ?members = "\<lambda>name. if ?ing = [] then []
                       else case category_items ?cats name of
                              Raise e \<Rightarrow> []
                            | Return members \<Rightarrow> filter (\<lambda>i. i \<in> set members) ?ing"
  let ?st1 = "snd (alloc (?members ''Proteins'') st)"
  let ?st2 = "snd (alloc (?members ''Pantry'') ?st1)"
  have a1: "allocated R ?st1" by (rule allocated_alloc [OF assms(1)])
  have i1: "ingredients_at < next_addr ?st1"
    using assms(2) by (simp add: next_addr_alloc)
  have c1: "catalog_of R ?st1 = ?cats" by (rule catalog_of_alloc [OF assms(1)])
  have o1: "objects ?st1 ingredients_at = ?ing"
    using assms(2) by (rule objects_alloc_old)
  have p2: "objects ?st2 (next_addr st) = ?members ''Proteins''"
    by (simp add: objects_alloc_old next_addr_alloc objects_alloc_new)
  have q2: "objects ?st2 (next_addr ?st1) = ?members ''Pantry''"
    by (rule objects_alloc_new)
  have u1: "unchanged st ?st1" by (rule unchanged_alloc)
  have u2: "unchanged st ?st2" by (rule unchanged_trans [OF u1 unchanged_alloc])
  have u0: "unchanged st (snd (alloc [] st))" by (rule unchanged_alloc)
  have u01: "unchanged st (snd (alloc [] ?st1))" by (rule unchanged_trans [OF u1 unchanged_alloc])
  have first: "members_on R ''Proteins'' ingredients_at st =
     (case count_members ?cats ''Proteins'' ?ing of
        Raise e \<Rightarrow> (Raise e, snd (alloc [] st))
      | Return n \<Rightarrow> (Return (next_addr st), ?st1))"
    by (rule members_on_eq [OF assms])
  have second: "members_on R ''Pantry'' ingredients_at ?st1 =
     (case count_members ?cats ''Pantry'' ?ing of
        Raise e \<Rightarrow> (Raise e, snd (alloc [] ?st1))
      | Return n \<Rightarrow> (Return (next_addr ?st1), ?st2))"
    using members_on_eq [OF a1 i1, of "''Pantry''"] unfolding c1 o1 .
  have both: "fst (analyze_nutrition_on R ingredients_at st) = analyze_nutrition_in ?cats ?ing
      \<and> unchanged st (snd (analyze_nutrition_on R ingredients_at st))"
  proof (cases "count_members ?cats ''Proteins'' ?ing")
    case (Raise e)
    then show ?thesis
      unfolding analyze_nutrition_on_def analyze_nutrition_in_def Let_def first
      using u0 by simp
  next
    case (Return p)
    show ?thesis
    proof (cases "count_members ?cats ''Pantry'' ?ing")
      case (Raise e)
      with Return show ?thesis
        unfolding analyze_nutrition_on_def analyze_nutrition_in_def Let_def first
        using u01 by (simp add: second)
    next
      case r2: (Return c)
      have "p = length (?members ''Proteins'')" "c = length (?members ''Pantry'')"
        using count_members_length [OF Return] count_members_length [OF r2] by simp_all
      with Return r2 show ?thesis
        unfolding analyze_nutrition_on_def analyze_nutrition_in_def Let_def first
        using u2 by (simp add: second p2 q2)
    qed
  qed
  from both show "fst (analyze_nutrition_on R ingredients_at st) = analyze_nutrition_in ?cats ?ing"
    by simp
  from both show "unchanged st (snd (analyze_nutrition_on R ingredients_at st))"
    by simp
qed


lemma allocated_unchanged: "allocated R st \<Longrightarrow> unchanged st st' \<Longrightarrow> allocated R st'"
  by (fastforce simp: allocated_def unchanged_def)

lemma catalog_of_unchanged:
  "allocated R st \<Longrightarrow> unchanged st st' \<Longrightarrow> catalog_of R st' = catalog_of R st"
  by (intro catalog_of_cong) (fastforce simp: allocated_def unchanged_def)

lemma profiles_of_unchanged:
  "allocated R st \<Longrightarrow> unchanged st st' \<Longrightarrow> profiles_of R st' = profiles_of R st"
  by (intro profiles_of_cong) (fastforce simp: allocated_def unchanged_def)

lemma selection_unchanged:
  "allocated R st \<Longrightarrow> unchanged st st' \<Longrightarrow>
   objects st' (selection_at R) = objects st (selection_at R)"
  by (simp add: allocated_def unchanged_def)

lemma get_dietary_tags_on_unchanged:
  "allocated R st \<Longrightarrow> unchanged st (snd (get_dietary_tags_on enum R st))"
  by (simp add: get_dietary_tags_on_eq unchanged_def)

lemma get_cooking_methods_on_unchanged:
  "allocated R st \<Longrightarrow> unchanged st (snd (get_cooking_methods_on enum R st))"
  by (simp add: get_cooking_methods_on_eq unchanged_def)

lemma get_dietary_tags_on_result:
  "allocated R st \<Longrightarrow>
   objects (snd (get_dietary_tags_on enum R st)) (fst (get_dietary_tags_on enum R st))
     = enum (dietary_tags_in (catalog_of R st) (objects st (selection_at R)))
   \<and> next_addr st \<le> fst (get_dietary_tags_on enum R st)"
  by (simp add: get_dietary_tags_on_eq)

lemma get_cooking_methods_on_result:
  "allocated R st \<Longrightarrow>
   objects (snd (get_cooking_methods_on enum R st)) (fst (get_cooking_methods_on enum R st))
     = enum (cooking_methods_in (profiles_of R st) (objects st (selection_at R)))
   \<and> next_addr st \<le> fst (get_cooking_methods_on enum R st)"
  by (simp add: get_cooking_methods_on_eq)

text \<open>
  C9. \<^verbatim>\<open>get_dietary_tags\<close>, \<^verbatim>\<open>get_cooking_methods\<close> and \<^verbatim>\<open>analyze_nutrition\<close> write to no
  object that exists before the call: in the store a call leaves, the selection, the
  lists of the tables and every other earlier object, those of the history included,
  have the content they had. What a call returns is determined by the selection and the
  tables alone: the tags and the methods are in a new list, the enumeration of the set
  computed from them, and the figures are those computed from them. So a call made
  in any later store in which the earlier objects are untouched, after any number
  of these calls, returns the same result as a call made at once.
\<close>

theorem derivations_pure:
  "allocated R st \<and> ingredients_at < next_addr st \<and> unchanged st st' \<longrightarrow>
     unchanged st' (snd (get_dietary_tags_on enum R st'))
   \<and> unchanged st' (snd (get_cooking_methods_on enum R st'))
   \<and> unchanged st' (snd (analyze_nutrition_on R ingredients_at st'))
   \<and> objects (snd (get_dietary_tags_on enum R st')) (fst (get_dietary_tags_on enum R st'))
       = enum (dietary_tags_in (catalog_of R st) (objects st (selection_at R)))
   \<and> next_addr st' \<le> fst (get_dietary_tags_on enum R st')
   \<and> objects (snd (get_cooking_methods_on enum R st')) (fst (get_cooking_methods_on enum R st'))
       = enum (cooking_methods_in (profiles_of R st) (objects st (selection_at R)))
   \<and> next_addr st' \<le> fst (get_cooking_methods_on enum R st')
   \<and> fst (analyze_nutrition_on R ingredients_at st')
       = analyze_nutrition_in (catalog_of R st) (objects st ingredients_at)"
proof
  assume "allocated R st \<and> ingredients_at < next_addr st \<and> unchanged st st'"
  then have a: "allocated R st" and i: "ingredients_at < next_addr st" and u: "unchanged st st'"
    by simp_all
  have a': "allocated R st'" by (rule allocated_unchanged [OF a u])
  from i u have i': "ingredients_at < next_addr st'"
    and ing: "objects st' ingredients_at = objects st ingredients_at"
    by (simp_all add: unchanged_def)
  note same = catalog_of_unchanged [OF a u] profiles_of_unchanged [OF a u]
    selection_unchanged [OF a u] ing
  show "unchanged st' (snd (get_dietary_tags_on enum R st'))
   \<and> unchanged st' (snd (get_cooking_methods_on enum R st'))
   \<and> unchanged st' (snd (analyze_nutrition_on R ingredients_at st'))
   \<and> objects (snd (get_dietary_tags_on enum R st')) (fst (get_dietary_tags_on enum R st'))
       = enum (dietary_tags_in (catalog_of R st) (objects st (selection_at R)))
   \<and> next_addr st' \<le> fst (get_dietary_tags_on enum R st')
   \<and> objects (snd (get_cooking_methods_on enum R st')) (fst (get_cooking_methods_on enum R st'))
       = enum (cooking_methods_in (profiles_of R st) (objects st (selection_at R)))
   \<and> next_addr st' \<le> fst (get_cooking_methods_on enum R st')
   \<and> fst (analyze_nutrition_on R ingredients_at st')
       = analyze_nutrition_in (catalog_of R st) (objects st ingredients_at)"
    using get_dietary_tags_on_unchanged [OF a', of enum]
      get_cooking_methods_on_unchanged [OF a', of enum]
      analyze_nutrition_on_eq [OF a' i']
      get_dietary_tags_on_result [OF a', of enum]
      get_cooking_methods_on_result [OF a', of enum]
    unfolding same by blast
qed

lemma catalog_of_module: "catalog_of module_roots (module_store selected) = INGREDIENT_CATEGORIES"
  by (simp add: catalog_of_def module_roots_def module_store_def module_objects_def
      INGREDIENT_CATEGORIES_def)

lemma profiles_of_module: "profiles_of module_roots (module_store selected) = INGREDIENT_PROFILES"
  by (rule ext)
    (simp add: profiles_of_def module_roots_def module_store_def module_objects_def
      INGREDIENT_CATEGORIES_def INGREDIENT_PROFILES_def)

lemma allocated_module: "allocated module_roots (module_store selected)"
  by (simp add: allocated_def module_roots_def module_store_def)

lemma selection_module: "objects (module_store selected) (selection_at module_roots) = selected"
  by (simp add: module_roots_def module_store_def)


text \<open>
  An instance on the tables of the module with Chicken and Rice selected, a process that
  enumerates a set in the reverse of its table, and the three functions called one
  after the other.
\<close>

theorem derivations_pure_witness:
  "unchanged (module_store [''Chicken'', ''Rice''])
     (snd (get_dietary_tags_on rev module_roots (module_store [''Chicken'', ''Rice''])))
   \<and> set (objects (snd (get_dietary_tags_on rev module_roots (module_store [''Chicken'', ''Rice''])))
               (fst (get_dietary_tags_on rev module_roots (module_store [''Chicken'', ''Rice'']))))
       = {''high-protein'', ''staples''}
   \<and> objects (snd (get_dietary_tags_on rev module_roots
                 (snd (get_dietary_tags_on rev module_roots (module_store [''Chicken'', ''Rice''])))))
             (fst (get_dietary_tags_on rev module_roots
                 (snd (get_dietary_tags_on rev module_roots (module_store [''Chicken'', ''Rice''])))))
       = objects (snd (get_dietary_tags_on rev module_roots (module_store [''Chicken'', ''Rice''])))
               (fst (get_dietary_tags_on rev module_roots (module_store [''Chicken'', ''Rice''])))
   \<and> set (objects (snd (get_cooking_methods_on rev module_roots
                 (snd (get_dietary_tags_on rev module_roots (module_store [''Chicken'', ''Rice''])))))
             (fst (get_cooking_methods_on rev module_roots
                 (snd (get_dietary_tags_on rev module_roots (module_store [''Chicken'', ''Rice'']))))))
       = {''grilled'', ''baked'', ''pan-fried''}
   \<and> fst (analyze_nutrition_on module_roots 16
            (snd (get_dietary_tags_on rev module_roots (module_store [''Chicken'', ''Rice'']))))
       = Return \<lparr>calories = 110, protein = 15, carbs = 20\<rparr>"
proof -
  let ?st0 = "module_store [''Chicken'', ''Rice'']"
  let ?st1 = "snd (get_dietary_tags_on rev module_roots ?st0)"
  have tags: "dietary_tags_in INGREDIENT_CATEGORIES [''Chicken'', ''Rice'']
      = [''high-protein'', ''staples'']"
    by (simp add: dietary_tags_in_def INGREDIENT_CATEGORIES_def set_update_def)
  have methods: "cooking_methods_in INGREDIENT_PROFILES [''Chicken'', ''Rice'']
      = [''grilled'', ''baked'', ''pan-fried'']"
    by (simp add: cooking_methods_in_def INGREDIENT_PROFILES_def set_update_def)
  have figures: "analyze_nutrition_in INGREDIENT_CATEGORIES [''Chicken'', ''Rice'']
      = Return \<lparr>calories = 110, protein = 15, carbs = 20\<rparr>"
    unfolding analyze_nutrition_def [symmetric] by (simp add: analyze_nutrition_eq)
  have ing: "objects ?st0 16 = [''Chicken'', ''Rice'']"
    by (simp add: module_store_def)
  have h0: "allocated module_roots ?st0 \<and> 16 < next_addr ?st0 \<and> unchanged ?st0 ?st0"
    by (simp add: allocated_module unchanged_refl) (simp add: module_store_def)
  note first = derivations_pure [of module_roots ?st0 16 ?st0 rev, THEN mp, OF h0]
  from first have u: "unchanged ?st0 ?st1" by (rule conjunct1)
  with h0 have h1: "allocated module_roots ?st0 \<and> 16 < next_addr ?st0 \<and> unchanged ?st0 ?st1"
    by simp
  note second = derivations_pure [of module_roots ?st0 16 ?st1 rev, THEN mp, OF h1]
  from first second u show ?thesis
    unfolding catalog_of_module profiles_of_module selection_module ing tags methods figures
    by (simp add: insert_commute)
qed

section \<open>Properties of the history store\<close>

lemma map_of_entry_json_likes:
  "map_of [(''recipe'', r), (''timestamp'', t), (''ingredients'', i), (''likes'', n),
           (''dietary_tags'', g)] ''likes'' = Some n"
  by simp

lemma dict_set_entry_json_likes:
  "dict_set ''likes'' v [(''recipe'', r), (''timestamp'', t), (''ingredients'', i), (''likes'', n),
                          (''dietary_tags'', g)]
   = [(''recipe'', r), (''timestamp'', t), (''ingredients'', i), (''likes'', v),
      (''dietary_tags'', g)]"
  by simp

lemma map_of_dict_set: "map_of (dict_set k v d) = (map_of d)(k \<mapsto> v)"
  by (induction k v d rule: dict_set.induct) auto

lemma keys_dict_set: "map_of d k \<noteq> None \<Longrightarrow> map fst (dict_set k v d) = map fst d"
  by (induction k v d rule: dict_set.induct) auto

lemma dict_set_twice: "dict_set k v (dict_set k w d) = dict_set k v d"
  by (induction k w d rule: dict_set.induct) auto

lemma like_button_dict:
  assumes "history s = JList (before @ [JObj d])" and "map_of d ''likes'' = Some (JInt n)"
  shows "like_button s =
     (Return (),
      s\<lparr>history := JList (before @ [JObj (dict_set ''likes'' (JInt (n + 1)) d)]),
        history_file :=
          Some (Document (JList (before @ [JObj (dict_set ''likes'' (JInt (n + 1)) d)])))\<rparr>)"
  using assms by (simp add: like_button_def add_one_def save_history_def)

lemma like_button_dict_twice:
  assumes "history s = JList (before @ [JObj d])" and "map_of d ''likes'' = Some (JInt n)"
  shows "like_button (snd (like_button s)) =
     (Return (),
      s\<lparr>history := JList (before @ [JObj (dict_set ''likes'' (JInt (n + 2)) d)]),
        history_file :=
          Some (Document (JList (before @ [JObj (dict_set ''likes'' (JInt (n + 2)) d)])))\<rparr>)"
proof -
  let ?d1 = "dict_set ''likes'' (JInt (n + 1)) d"
  let ?s1 = "s\<lparr>history := JList (before @ [JObj ?d1]),
        history_file := Some (Document (JList (before @ [JObj ?d1])))\<rparr>"
  have "history ?s1 = JList (before @ [JObj ?d1])" by simp
  moreover have "map_of ?d1 ''likes'' = Some (JInt (n + 1))"
    by (simp add: map_of_dict_set)
  ultimately have "like_button ?s1 =
     (Return (),
      ?s1\<lparr>history := JList (before @ [JObj (dict_set ''likes'' (JInt (n + 1 + 1)) ?d1)]),
        history_file :=
          Some (Document (JList (before @ [JObj (dict_set ''likes'' (JInt (n + 1 + 1)) ?d1)])))\<rparr>)"
    by (rule like_button_dict)
  then show ?thesis
    unfolding like_button_dict [OF assms] by (simp add: dict_set_twice add.commute)
qed

lemma like_button_empty: "history s = JList [] \<Longrightarrow> like_button s = (Raise IndexError, s)"
  by (simp add: like_button_def)

lemma like_button_entry:
  "history s = JList (before @ [entry_json e]) \<Longrightarrow>
   like_button s =
     (Return (),
      s\<lparr>history := JList (before @ [entry_json (e\<lparr>likes := likes e + 1\<rparr>)]),
        history_file := Some (Document (JList (before @ [entry_json (e\<lparr>likes := likes e + 1\<rparr>)])))\<rparr>)"
  by (simp add: like_button_def entry_json_def add_one_def save_history_def)

lemma like_button_nonempty:
  assumes "history s = JList (map entry_json h)" and "h \<noteq> []"
  shows "like_button s =
     (Return (),
      s\<lparr>history := JList (map entry_json (butlast h @ [(last h)\<lparr>likes := likes (last h) + 1\<rparr>])),
        history_file := Some (Document
          (JList (map entry_json (butlast h @ [(last h)\<lparr>likes := likes (last h) + 1\<rparr>]))))\<rparr>)"
proof -
  have "map entry_json (butlast h @ [last h]) = map entry_json (butlast h) @ [entry_json (last h)]"
    by simp
  moreover have "butlast h @ [last h] = h"
    using assms(2) by simp
  ultimately have "history s = JList (map entry_json (butlast h) @ [entry_json (last h)])"
    using assms(1) by simp
  from like_button_entry [OF this] show ?thesis by simp
qed

text \<open>
  C3. The like handler on an empty history raises \<^verbatim>\<open>IndexError\<close> and leaves the
  whole state, the file included, as it was. On a non-empty history of entries it
  returns normally: the last entry's likes are one more, every other entry and field is
  as before, and the file holds the full new history. A second call makes the likes two
  more than at the start, again with the full history in the file. The same holds for
  every list whose last element is a dict with an integer under \<^verbatim>\<open>'likes'\<close>, whatever
  its other keys and their order: the value under \<^verbatim>\<open>'likes'\<close> is one more, then two
  more, and nothing else in the dict or the list changes.
\<close>

theorem like_button_increments:
  "(history s = JList [] \<longrightarrow> like_button s = (Raise IndexError, s))
   \<and> (history s = JList (map entry_json h) \<and> h \<noteq> [] \<longrightarrow>
        (\<exists>s1 s2. like_button s = (Return (), s1)
           \<and> history s1 =
               JList (map entry_json (butlast h @ [(last h)\<lparr>likes := likes (last h) + 1\<rparr>]))
           \<and> history_file s1 = Some (Document (history s1))
           \<and> selected_ingredients s1 = selected_ingredients s
           \<and> like_button s1 = (Return (), s2)
           \<and> history s2 =
               JList (map entry_json (butlast h @ [(last h)\<lparr>likes := likes (last h) + 2\<rparr>]))
           \<and> history_file s2 = Some (Document (history s2))
           \<and> selected_ingredients s2 = selected_ingredients s))
   \<and> (history s = JList (before @ [JObj d]) \<and> map_of d ''likes'' = Some (JInt n) \<longrightarrow>
        like_button s =
          (Return (),
           s\<lparr>history := JList (before @ [JObj (dict_set ''likes'' (JInt (n + 1)) d)]),
             history_file :=
               Some (Document (JList (before @ [JObj (dict_set ''likes'' (JInt (n + 1)) d)])))\<rparr>)
        \<and> like_button (snd (like_button s)) =
          (Return (),
           s\<lparr>history := JList (before @ [JObj (dict_set ''likes'' (JInt (n + 2)) d)]),
             history_file :=
               Some (Document (JList (before @ [JObj (dict_set ''likes'' (JInt (n + 2)) d)])))\<rparr>)
        \<and> map_of (dict_set ''likes'' (JInt (n + 1)) d) = (map_of d)(''likes'' \<mapsto> JInt (n + 1))
        \<and> map fst (dict_set ''likes'' (JInt (n + 1)) d) = map fst d)"
proof (intro conjI impI)
  assume "history s = JList []"
  then show "like_button s = (Raise IndexError, s)" by (rule like_button_empty)
next
  assume "history s = JList (before @ [JObj d]) \<and> map_of d ''likes'' = Some (JInt n)"
  then have hist: "history s = JList (before @ [JObj d])"
    and lk: "map_of d ''likes'' = Some (JInt n)" by simp_all
  from lk have present: "map_of d ''likes'' \<noteq> None" by simp
  show "like_button s =
          (Return (),
           s\<lparr>history := JList (before @ [JObj (dict_set ''likes'' (JInt (n + 1)) d)]),
             history_file :=
               Some (Document (JList (before @ [JObj (dict_set ''likes'' (JInt (n + 1)) d)])))\<rparr>)"
    by (rule like_button_dict [OF hist lk])
  show "like_button (snd (like_button s)) =
          (Return (),
           s\<lparr>history := JList (before @ [JObj (dict_set ''likes'' (JInt (n + 2)) d)]),
             history_file :=
               Some (Document (JList (before @ [JObj (dict_set ''likes'' (JInt (n + 2)) d)])))\<rparr>)"
    by (rule like_button_dict_twice [OF hist lk])
  show "map_of (dict_set ''likes'' (JInt (n + 1)) d) = (map_of d)(''likes'' \<mapsto> JInt (n + 1))"
    by (rule map_of_dict_set)
  show "map fst (dict_set ''likes'' (JInt (n + 1)) d) = map fst d"
    by (rule keys_dict_set [OF present])
next
  assume "history s = JList (map entry_json h) \<and> h \<noteq> []"
  then have hist: "history s = JList (map entry_json h)" and ne: "h \<noteq> []" by simp_all
  let ?e = "last h"
  let ?h1 = "butlast h @ [?e\<lparr>likes := likes ?e + 1\<rparr>]"
  let ?h2 = "butlast h @ [?e\<lparr>likes := likes ?e + 2\<rparr>]"
  let ?s1 = "s\<lparr>history := JList (map entry_json ?h1),
        history_file := Some (Document (JList (map entry_json ?h1)))\<rparr>"
  let ?s2 = "s\<lparr>history := JList (map entry_json ?h2),
        history_file := Some (Document (JList (map entry_json ?h2)))\<rparr>"
  have first: "like_button s = (Return (), ?s1)"
    using hist ne by (rule like_button_nonempty)
  have "history ?s1 = JList (map entry_json ?h1)" and "?h1 \<noteq> []" by simp_all
  from like_button_nonempty [OF this] have second: "like_button ?s1 = (Return (), ?s2)"
    by (simp add: add.commute)
  show "\<exists>s1 s2. like_button s = (Return (), s1)
           \<and> history s1 = JList (map entry_json ?h1)
           \<and> history_file s1 = Some (Document (history s1))
           \<and> selected_ingredients s1 = selected_ingredients s
           \<and> like_button s1 = (Return (), s2)
           \<and> history s2 = JList (map entry_json ?h2)
           \<and> history_file s2 = Some (Document (history s2))
           \<and> selected_ingredients s2 = selected_ingredients s"
    apply (rule exI [of _ ?s1])
    apply (rule exI [of _ ?s2])
    using first second by simp
qed

text \<open>
  Instances on an empty history, on a history of one entry, and on a list whose last
  element is a dict with other keys.
\<close>

theorem like_button_increments_witness:
  "like_button \<lparr>selected_ingredients = [''Eggs''], history = JList [], history_file = None\<rparr>
     = (Raise IndexError,
        \<lparr>selected_ingredients = [''Eggs''], history = JList [], history_file = None\<rparr>)
   \<and> (\<exists>s1 s2.
        like_button \<lparr>selected_ingredients = [''Eggs''],
                     history = JList [entry_json
                       \<lparr>recipe = ''Omelette'', timestamp = ''2024-01-01T10:00:00'',
                        ingredients = [''Eggs''], likes = 0, dietary_tags = [''high-protein'']\<rparr>],
                     history_file = None\<rparr> = (Return (), s1)
        \<and> like_button s1 = (Return (), s2)
        \<and> history s1 = JList [entry_json
                       \<lparr>recipe = ''Omelette'', timestamp = ''2024-01-01T10:00:00'',
                        ingredients = [''Eggs''], likes = 1, dietary_tags = [''high-protein'']\<rparr>]
        \<and> history s2 = JList [entry_json
                       \<lparr>recipe = ''Omelette'', timestamp = ''2024-01-01T10:00:00'',
                        ingredients = [''Eggs''], likes = 2, dietary_tags = [''high-protein'']\<rparr>]
        \<and> history_file s2 = Some (Document (history s2)))
   \<and> history (snd (like_button
        \<lparr>selected_ingredients = [], history = JList [JInt 7, JObj [(''likes'', JInt 4),
           (''recipe'', JStr ''Omelette''), (''note'', JNull)]], history_file = None\<rparr>))
       = JList [JInt 7, JObj [(''likes'', JInt 5), (''recipe'', JStr ''Omelette''), (''note'', JNull)]]"
proof -
  let ?d = "[(''likes'', JInt 4), (''recipe'', JStr ''Omelette''), (''note'', JNull)]"
  let ?odd = "\<lparr>selected_ingredients = [], history = JList [JInt 7, JObj ?d],
               history_file = None\<rparr>"
  have o: "history ?odd = JList ([JInt 7] @ [JObj ?d]) \<and> map_of ?d ''likes'' = Some (JInt 4)"
    by simp
  have "like_button ?odd =
          (Return (),
           ?odd\<lparr>history := JList ([JInt 7] @ [JObj (dict_set ''likes'' (JInt (4 + 1)) ?d)]),
             history_file :=
               Some (Document (JList ([JInt 7] @ [JObj (dict_set ''likes'' (JInt (4 + 1)) ?d)])))\<rparr>)"
    by (rule like_button_increments [of ?odd _ "[JInt 7]" ?d 4, THEN conjunct2, THEN conjunct2,
          THEN mp, OF o, THEN conjunct1])
  then have odd: "history (snd (like_button ?odd))
       = JList [JInt 7, JObj [(''likes'', JInt 5), (''recipe'', JStr ''Omelette''), (''note'', JNull)]]"
    by simp
  let ?e = "\<lparr>recipe = ''Omelette'', timestamp = ''2024-01-01T10:00:00'',
             ingredients = [''Eggs''], likes = 0, dietary_tags = [''high-protein'']\<rparr>"
  let ?empty = "\<lparr>selected_ingredients = [''Eggs''], history = JList [], history_file = None\<rparr>"
  let ?one = "\<lparr>selected_ingredients = [''Eggs''], history = JList [entry_json ?e],
               history_file = None\<rparr>"
  have e: "history ?empty = JList []" by simp
  have n: "history ?one = JList (map entry_json [?e]) \<and> [?e] \<noteq> []" by simp
  have raises: "like_button ?empty = (Raise IndexError, ?empty)"
    by (rule like_button_increments [of ?empty, THEN conjunct1, THEN mp, OF e])
  obtain s1 s2 where
    "like_button ?one = (Return (), s1)"
    "history s1 = JList (map entry_json (butlast [?e] @ [(last [?e])\<lparr>likes := likes (last [?e]) + 1\<rparr>]))"
    "like_button s1 = (Return (), s2)"
    "history s2 = JList (map entry_json (butlast [?e] @ [(last [?e])\<lparr>likes := likes (last [?e]) + 2\<rparr>]))"
    "history_file s2 = Some (Document (history s2))"
    using like_button_increments [of ?one "[?e]", THEN conjunct2, THEN conjunct1, THEN mp, OF n]
    by blast
  then have "like_button ?one = (Return (), s1) \<and> like_button s1 = (Return (), s2)
        \<and> history s1 = JList [entry_json (?e\<lparr>likes := 1\<rparr>)]
        \<and> history s2 = JList [entry_json (?e\<lparr>likes := 2\<rparr>)]
        \<and> history_file s2 = Some (Document (history s2))"
    by simp
  then have "\<exists>s1 s2. like_button ?one = (Return (), s1) \<and> like_button s1 = (Return (), s2)
        \<and> history s1 = JList [entry_json (?e\<lparr>likes := 1\<rparr>)]
        \<and> history s2 = JList [entry_json (?e\<lparr>likes := 2\<rparr>)]
        \<and> history_file s2 = Some (Document (history s2))"
    by (intro exI)
  with raises odd show ?thesis by simp
qed

text \<open>
  C5, as amended. \<^verbatim>\<open>load_history\<close> with no file present returns normally with the empty
  history. With a file that cannot be decoded as text or that \<^verbatim>\<open>json.load\<close> cannot
  parse it raises \<^verbatim>\<open>UnicodeDecodeError\<close> or \<^verbatim>\<open>JSONDecodeError\<close> to its caller and leaves
  the state as it was. With a file that parses it returns normally with the parsed
  value as the history, whether that value is a sequence of entries or not. It raises
  in the two cases named and in no other. In no case does it write the file.
\<close>

theorem load_history_cases:
  "(history_file s = None \<longrightarrow> load_history s = (Return (), s\<lparr>history := JList []\<rparr>))
   \<and> (history_file s = Some Malformed \<longrightarrow> load_history s = (Raise JSONDecodeError, s))
   \<and> (history_file s = Some Undecodable \<longrightarrow> load_history s = (Raise UnicodeDecodeError, s))
   \<and> (history_file s = Some (Document v) \<longrightarrow> load_history s = (Return (), s\<lparr>history := v\<rparr>))
   \<and> ((\<exists>e. fst (load_history s) = Raise e) \<longleftrightarrow>
          (history_file s = Some Malformed \<or> history_file s = Some Undecodable))
   \<and> history_file (snd (load_history s)) = history_file s"
proof (cases "history_file s")
  case None
  then show ?thesis by (simp add: load_history_def)
next
  case (Some content)
  then show ?thesis
  proof (cases content)
    case (Document parsed)
    with Some show ?thesis by (simp add: load_history_def)
  next
    case Malformed
    with Some show ?thesis by (simp add: load_history_def)
  next
    case Undecodable
    with Some show ?thesis by (simp add: load_history_def)
  qed
qed

text \<open>Instances: no file, a text that is not JSON, a file of one entry.\<close>

theorem load_history_cases_witness:
  "load_history \<lparr>selected_ingredients = [], history = JNull, history_file = None\<rparr>
     = (Return (), \<lparr>selected_ingredients = [], history = JList [], history_file = None\<rparr>)
   \<and> load_history \<lparr>selected_ingredients = [], history = JNull, history_file = Some Malformed\<rparr>
     = (Raise JSONDecodeError,
        \<lparr>selected_ingredients = [], history = JNull, history_file = Some Malformed\<rparr>)
   \<and> load_history \<lparr>selected_ingredients = [], history = JNull, history_file = Some Undecodable\<rparr>
     = (Raise UnicodeDecodeError,
        \<lparr>selected_ingredients = [], history = JNull, history_file = Some Undecodable\<rparr>)
   \<and> load_history \<lparr>selected_ingredients = [], history = JNull, history_file = Some (Document
          (JList [entry_json \<lparr>recipe = ''Omelette'', timestamp = ''2024-01-01T10:00:00'',
            ingredients = [''Eggs''], likes = 3, dietary_tags = [''high-protein'']\<rparr>]))\<rparr>
     = (Return (), \<lparr>selected_ingredients = [],
          history = JList [entry_json \<lparr>recipe = ''Omelette'', timestamp = ''2024-01-01T10:00:00'',
            ingredients = [''Eggs''], likes = 3, dietary_tags = [''high-protein'']\<rparr>],
          history_file = Some (Document
          (JList [entry_json \<lparr>recipe = ''Omelette'', timestamp = ''2024-01-01T10:00:00'',
            ingredients = [''Eggs''], likes = 3, dietary_tags = [''high-protein'']\<rparr>]))\<rparr>)"
proof -
  let ?v = "JList [entry_json \<lparr>recipe = ''Omelette'', timestamp = ''2024-01-01T10:00:00'',
            ingredients = [''Eggs''], likes = 3, dietary_tags = [''high-protein'']\<rparr>]"
  let ?absent = "\<lparr>selected_ingredients = [], history = JNull, history_file = None\<rparr>"
  let ?corrupt = "\<lparr>selected_ingredients = [], history = JNull, history_file = Some Malformed\<rparr>"
  let ?bytes = "\<lparr>selected_ingredients = [], history = JNull, history_file = Some Undecodable\<rparr>"
  let ?stored = "\<lparr>selected_ingredients = [], history = JNull, history_file = Some (Document ?v)\<rparr>"
  have a: "history_file ?absent = None" by simp
  have c: "history_file ?corrupt = Some Malformed" by simp
  have u: "history_file ?bytes = Some Undecodable" by simp
  have d: "history_file ?stored = Some (Document ?v)" by simp
  have "load_history ?absent = (Return (), ?absent\<lparr>history := JList []\<rparr>)"
    by (rule load_history_cases [of ?absent, THEN conjunct1, THEN mp, OF a])
  moreover have "load_history ?corrupt = (Raise JSONDecodeError, ?corrupt)"
    by (rule load_history_cases [of ?corrupt, THEN conjunct2, THEN conjunct1, THEN mp, OF c])
  moreover have "load_history ?bytes = (Raise UnicodeDecodeError, ?bytes)"
    by (rule load_history_cases [of ?bytes, THEN conjunct2, THEN conjunct2, THEN conjunct1,
          THEN mp, OF u])
  moreover have "load_history ?stored = (Return (), ?stored\<lparr>history := ?v\<rparr>)"
    by (rule load_history_cases [of ?stored ?v, THEN conjunct2, THEN conjunct2, THEN conjunct2,
          THEN conjunct1, THEN mp, OF d])
  ultimately show ?thesis by simp
qed

text \<open>
  C5 as stated fails: a store that holds the JSON object \<^verbatim>\<open>{"a": 1}\<close>, or \<^verbatim>\<open>null\<close>, is
  no sequence of entries, and \<^verbatim>\<open>load_history\<close> returns normally with that value as the
  history, where a load error is claimed.
\<close>

theorem malformed_store_counterexample:
  "\<not> is_history (JObj [(''a'', JInt 1)])
   \<and> load_history \<lparr>selected_ingredients = [], history = JList [],
                    history_file = Some (Document (JObj [(''a'', JInt 1)]))\<rparr>
       = (Return (), \<lparr>selected_ingredients = [], history = JObj [(''a'', JInt 1)],
                       history_file = Some (Document (JObj [(''a'', JInt 1)]))\<rparr>)
   \<and> \<not> is_history JNull
   \<and> load_history \<lparr>selected_ingredients = [], history = JList [],
                    history_file = Some (Document JNull)\<rparr>
       = (Return (), \<lparr>selected_ingredients = [], history = JNull,
                       history_file = Some (Document JNull)\<rparr>)"
  by (simp add: is_history_def load_history_def)

text \<open>
  C6. For every state whose history is a list, every recipe text and every clock
  reading, \<^verbatim>\<open>add_recipe\<close> returns normally, and a load by any manager that finds the file
  \<^verbatim>\<open>add_recipe\<close> wrote returns normally with the previous history followed by the entry
  \<^verbatim>\<open>add_recipe\<close> built: its last element is that entry, the elements before it are the
  previous history.
\<close>

theorem add_recipe_round_trip:
  "history s = JList previous \<longrightarrow>
   (\<exists>s1. add_recipe recipe_data now s = (Return (), s1)
      \<and> (\<forall>s2. history_file s2 = history_file s1 \<longrightarrow>
            (\<exists>s3 loaded. load_history s2 = (Return (), s3)
               \<and> history s3 = JList loaded
               \<and> loaded = previous @
                    [entry_json \<lparr>recipe = recipe_data, timestamp = now,
                      ingredients = selected_ingredients s, likes = 0,
                      dietary_tags = fst (get_dietary_tags s)\<rparr>]
               \<and> last loaded =
                     entry_json \<lparr>recipe = recipe_data, timestamp = now,
                      ingredients = selected_ingredients s, likes = 0,
                      dietary_tags = fst (get_dietary_tags s)\<rparr>
               \<and> butlast loaded = previous
               \<and> history_file s3 = history_file s1)))"
  by (simp add: add_recipe_def Let_def get_dietary_tags_def save_history_def load_history_def)

text \<open>An instance: a second recipe is stored and the file is loaded afresh.\<close>

theorem add_recipe_round_trip_witness:
  "\<exists>s1 s3.
     add_recipe ''Scramble'' ''2024-01-02T09:30:00''
       \<lparr>selected_ingredients = [''Eggs'', ''Chicken''],
        history = JList [entry_json
                   \<lparr>recipe = ''Omelette'', timestamp = ''2024-01-01T10:00:00'',
                    ingredients = [''Eggs''], likes = 3, dietary_tags = [''high-protein'']\<rparr>],
        history_file = None\<rparr> = (Return (), s1)
   \<and> load_history \<lparr>selected_ingredients = [], history = JNull, history_file = history_file s1\<rparr>
        = (Return (), s3)
   \<and> history s3 =
        JList [entry_json
         \<lparr>recipe = ''Omelette'', timestamp = ''2024-01-01T10:00:00'',
          ingredients = [''Eggs''], likes = 3, dietary_tags = [''high-protein'']\<rparr>,
         entry_json
         \<lparr>recipe = ''Scramble'', timestamp = ''2024-01-02T09:30:00'',
          ingredients = [''Eggs'', ''Chicken''], likes = 0,
          dietary_tags = [''high-protein'']\<rparr>]"
proof -
  let ?old = "entry_json \<lparr>recipe = ''Omelette'', timestamp = ''2024-01-01T10:00:00'',
                    ingredients = [''Eggs''], likes = 3, dietary_tags = [''high-protein'']\<rparr>"
  let ?s = "\<lparr>selected_ingredients = [''Eggs'', ''Chicken''],
        history = JList [?old], history_file = None\<rparr>"
  have tags: "fst (get_dietary_tags ?s) = [''high-protein'']"
    by (simp add: get_dietary_tags_def dietary_tags_in_def INGREDIENT_CATEGORIES_def set_update_def)
  have list: "history ?s = JList [?old]" by simp
  obtain s1 where s1: "add_recipe ''Scramble'' ''2024-01-02T09:30:00'' ?s = (Return (), s1)"
    and fresh: "\<forall>s2. history_file s2 = history_file s1 \<longrightarrow>
            (\<exists>s3 loaded. load_history s2 = (Return (), s3)
               \<and> history s3 = JList loaded
               \<and> loaded = [?old] @
                    [entry_json \<lparr>recipe = ''Scramble'', timestamp = ''2024-01-02T09:30:00'',
                      ingredients = selected_ingredients ?s, likes = 0,
                      dietary_tags = fst (get_dietary_tags ?s)\<rparr>]
               \<and> last loaded =
                     entry_json \<lparr>recipe = ''Scramble'', timestamp = ''2024-01-02T09:30:00'',
                      ingredients = selected_ingredients ?s, likes = 0,
                      dietary_tags = fst (get_dietary_tags ?s)\<rparr>
               \<and> butlast loaded = [?old]
               \<and> history_file s3 = history_file s1)"
    using add_recipe_round_trip [of ?s "[?old]" "''Scramble''" "''2024-01-02T09:30:00''",
        THEN mp, OF list] by blast
  let ?s2 = "\<lparr>selected_ingredients = [], history = JNull, history_file = history_file s1\<rparr>"
  have "history_file ?s2 = history_file s1" by simp
  with fresh obtain s3 loaded where "load_history ?s2 = (Return (), s3)"
    and "history s3 = JList loaded"
    and "loaded = [?old] @
                    [entry_json \<lparr>recipe = ''Scramble'', timestamp = ''2024-01-02T09:30:00'',
                      ingredients = selected_ingredients ?s, likes = 0,
                      dietary_tags = fst (get_dietary_tags ?s)\<rparr>]"
    by blast
  with s1 show ?thesis unfolding tags by simp
qed

section \<open>Properties of the popular combinations\<close>

lemma inner_loop_fold:
  "fold (\<lambda>i2 acc. if i1 < i2 then incr (i1, i2) acc else acc) ys acc
   = fold incr (map (\<lambda>i2. (i1, i2)) (filter (\<lambda>i2. i1 < i2) ys)) acc"
  by (induction ys arbitrary: acc) simp_all

lemma outer_loop_fold:
  "fold (\<lambda>i1 acc. fold (\<lambda>i2 acc. if i1 < i2 then incr (i1, i2) acc else acc) ys acc) xs acc
   = fold incr (concat (map (\<lambda>i1. map (\<lambda>i2. (i1, i2)) (filter (\<lambda>i2. i1 < i2) ys)) xs)) acc"
  by (induction xs arbitrary: acc) (simp_all add: inner_loop_fold)

lemma entry_combinations_fold:
  "entry_combinations ings acc = fold incr (entry_pairs ings) acc"
  by (simp add: entry_combinations_def entry_pairs_def outer_loop_fold)

lemma history_loop_fold:
  "fold (\<lambda>entry acc. entry_combinations (ingredients entry) acc) h acc
   = fold incr (history_pairs h) acc"
  by (induction h arbitrary: acc) (simp_all add: history_pairs_def entry_combinations_fold)

lemma combinations_fold: "combinations h = fold incr (history_pairs h) []"
  by (simp add: combinations_def history_loop_fold)

lemma keys_incr:
  "map fst (incr k acc) = (if k \<in> set (map fst acc) then map fst acc else map fst acc @ [k])"
  by (induction k acc rule: incr.induct) auto

lemma keys_fold_incr: "map fst (fold incr ps acc) = set_update (map fst acc) ps"
  unfolding set_update_def
  by (induction ps arbitrary: acc) (simp_all add: keys_incr)

lemma pair_count_incr:
  "pair_count (incr k acc) p = pair_count acc p + (if p = k then 1 else 0)"
  by (induction k acc rule: incr.induct) (auto simp: pair_count_def)

lemma pair_count_fold_incr:
  "pair_count (fold incr ps acc) p = pair_count acc p + int (count_list ps p)"
  by (induction ps arbitrary: acc) (auto simp: pair_count_incr)

lemma pair_count_Nil: "pair_count [] p = 0"
  by (simp add: pair_count_def)

lemma set_update_first_seen:
  "set_update s ps = s @ filter (\<lambda>x. x \<notin> set s) (first_seen ps)"
proof (induction ps arbitrary: s)
  case Nil
  then show ?case by (simp add: set_update_def)
next
  case (Cons x ps)
  have step: "set_update s (x # ps) = set_update (if x \<in> set s then s else s @ [x]) ps"
    by (simp add: set_update_def)
  show ?case
  proof (cases "x \<in> set s")
    case True
    then have "(\<lambda>y. x \<noteq> y \<and> y \<notin> set s) = (\<lambda>y. y \<notin> set s)" by auto
    with True show ?thesis
      unfolding step by (simp add: Cons.IH removeAll_filter_not_eq)
  next
    case False
    have "(\<lambda>y. y \<noteq> x \<and> y \<notin> set s) = (\<lambda>y. x \<noteq> y \<and> y \<notin> set s)" by auto
    with False show ?thesis
      unfolding step by (simp add: Cons.IH removeAll_filter_not_eq)
  qed
qed

lemma distinct_first_seen: "distinct (first_seen xs)"
  by (induction xs) (simp_all add: distinct_removeAll)

lemma set_first_seen: "set (first_seen xs) = set xs"
  by (induction xs) auto

lemma assoc_by_keys:
  "distinct (map fst l) \<Longrightarrow> l = map (\<lambda>k. (k, pair_count l k)) (map fst l)"
proof (induction l)
  case Nil
  then show ?case by simp
next
  case (Cons kv l)
  obtain k v where kv: "kv = (k, v)" by (cases kv)
  from Cons.prems kv have notin: "k \<notin> fst ` set l" and d: "distinct (map fst l)" by auto
  have "map (\<lambda>k'. (k', pair_count ((k, v) # l) k')) (map fst l)
      = map (\<lambda>k'. (k', pair_count l k')) (map fst l)"
    using notin by (intro map_cong) (auto simp: pair_count_def)
  with Cons.IH [OF d] show ?case
    unfolding kv by (simp add: pair_count_def)
qed

lemma combinations_tally:
  "combinations h =
     map (\<lambda>p. (p, int (count_list (history_pairs h) p))) (first_seen (history_pairs h))"
proof -
  have keys: "map fst (combinations h) = first_seen (history_pairs h)"
    by (simp add: combinations_fold keys_fold_incr set_update_first_seen)
  have counts: "pair_count (combinations h) p = int (count_list (history_pairs h) p)" for p
    by (simp add: combinations_fold pair_count_fold_incr pair_count_Nil)
  have "distinct (map fst (combinations h))"
    unfolding keys by (rule distinct_first_seen)
  from assoc_by_keys [OF this] show ?thesis
    unfolding keys counts .
qed

lemma count_inner_pairs:
  "count_list (map (\<lambda>i2. (i1, i2)) (filter (\<lambda>i2. i1 < i2) ys)) (a, b)
   = (if i1 = a \<and> a < b then count_list ys b else 0)"
  by (induction ys) auto

lemma count_outer_pairs:
  "count_list (concat (map (\<lambda>i1. map (\<lambda>i2. (i1, i2)) (filter (\<lambda>i2. i1 < i2) ys)) xs)) (a, b)
   = (if a < b then count_list xs a * count_list ys b else 0)"
  by (induction xs) (simp_all add: count_inner_pairs)

lemma count_entry_pairs:
  "count_list (entry_pairs ings) (a, b)
   = (if a < b then count_list ings a * count_list ings b else 0)"
  by (simp add: entry_pairs_def count_outer_pairs)

lemma count_history_pairs:
  "count_list (history_pairs h) (a, b)
   = (if a < b then (\<Sum>e\<leftarrow>h. count_list (ingredients e) a * count_list (ingredients e) b) else 0)"
  by (induction h) (simp_all add: history_pairs_def count_entry_pairs)


lemma sorted_reverse_descending:
  "sorted_wrt (\<lambda>x y. key y \<le> key x) (sorted_reverse key xs)"
proof -
  have "sorted (map key (sort_key key (rev xs)))" by (rule sorted_sort_key)
  then have "sorted_wrt (\<lambda>x y. key x \<le> key y) (sort_key key (rev xs))"
    by (simp add: sorted_map)
  then show ?thesis
    by (simp add: sorted_reverse_def sorted_wrt_rev)
qed

lemma sorted_reverse_stable:
  "filter (\<lambda>x. key x = c) (sorted_reverse key xs) = filter (\<lambda>x. key x = c) xs"
  by (simp add: sorted_reverse_def rev_filter [symmetric] sort_key_stable)

lemma set_sorted_reverse: "set (sorted_reverse key xs) = set xs"
  by (simp add: sorted_reverse_def)

lemma length_sorted_reverse: "length (sorted_reverse key xs) = length xs"
  by (simp add: sorted_reverse_def)

lemma sorted_wrt_take_prefix: "sorted_wrt R xs \<Longrightarrow> sorted_wrt R (take n xs)"
proof -
  assume "sorted_wrt R xs"
  then have "sorted_wrt R (take n xs @ drop n xs)" by simp
  then show ?thesis unfolding sorted_wrt_append by blast
qed

lemma combinations_Nil: "combinations [] = []"
  by (simp add: combinations_def)

lemma top_combos_upto_eq:
  "top_combos_upto k h = take k (sorted_reverse snd (combinations h))"
  by (simp add: top_combos_upto_def combinations_Nil sorted_reverse_def)

lemma example_three_entries:
  assumes "A < B" "B < C"
    and "ingredients e1 = [A, B]" "ingredients e2 = [A, B]" "ingredients e3 = [A, C]"
  shows "top_combos_upto 2 [e1, e2, e3] = [((A, B), 2), ((A, C), 1)]
    \<and> top_combos [e1, e2, e3] = [((A, B), 2), ((A, C), 1)]"
proof -
  from assms have ord: "A < C" "\<not> B < A" "\<not> C < A" "\<not> A < A" "\<not> B < B" "\<not> C < C" "B \<noteq> C"
    by auto
  have "combinations [e1, e2, e3] = [((A, B), 2), ((A, C), 1)]"
    using assms ord by (simp add: combinations_def entry_combinations_def)
  then show ?thesis
    by (simp add: top_combos_def top_combos_upto_eq sorted_reverse_def)
qed


lemma count_product_distinct:
  "distinct ings \<Longrightarrow>
   count_list ings a * count_list ings b = (if a \<in> set ings \<and> b \<in> set ings then 1 else 0)"
  by (simp add: count_list_distinct)

lemma sum_products_distinct:
  "\<forall>e\<in>set h. distinct (ingredients e) \<Longrightarrow>
   (\<Sum>e\<leftarrow>h. count_list (ingredients e) a * count_list (ingredients e) b)
   = length (filter (\<lambda>e. a \<in> set (ingredients e) \<and> b \<in> set (ingredients e)) h)"
  by (induction h) (simp_all add: count_product_distinct)

lemma pair_count_combinations:
  "pair_count (combinations h) p = int (count_list (history_pairs h) p)"
  by (simp add: combinations_fold pair_count_fold_incr pair_count_Nil)

lemma spec_pair_count_eq:
  "spec_pair_count h (a, b) =
     (if a < b
      then int (length (filter (\<lambda>e. a \<in> set (ingredients e) \<and> b \<in> set (ingredients e)) h))
      else 0)"
  by (simp add: spec_pair_count_def)

lemma select_items_distinct:
  "distinct (selected_ingredients s) \<Longrightarrow> distinct (selected_ingredients (select_items selected s))"
  unfolding select_items_def
  by (induction selected arbitrary: s) simp_all

lemma add_recipe_history:
  "history s = JList previous \<Longrightarrow>
   history (snd (add_recipe recipe_data now s)) =
     JList (previous @ [entry_json \<lparr>recipe = recipe_data, timestamp = now,
                   ingredients = selected_ingredients s, likes = 0,
                   dietary_tags = fst (get_dietary_tags s)\<rparr>])"
  by (simp add: add_recipe_def Let_def get_dietary_tags_def save_history_def)

lemma string_of_JStr: "those_strings (map JStr xs) = Some xs"
  by (induction xs) simp_all

lemma entry_of_entry_json: "0 \<le> likes e \<Longrightarrow> entry_of (entry_json e) = Some e"
  by (simp add: entry_json_def field_def string_of_JStr)

lemma entries_of_entry_json:
  "\<forall>e\<in>set h. 0 \<le> likes e \<Longrightarrow> entries_of (JList (map entry_json h)) = Some h"
  by (induction h) (simp_all add: entry_of_entry_json)

lemma those_entries_append:
  "those_entries xs = Some h \<Longrightarrow> entry_of y = Some e \<Longrightarrow>
   those_entries (xs @ [y]) = Some (h @ [e])"
  by (induction xs arbitrary: h) (auto split: option.splits)

lemma add_recipe_distinct:
  assumes "entries_of (history s) = Some h"
    and "\<forall>e\<in>set h. distinct (ingredients e)"
    and "distinct (selected_ingredients s)"
  shows "\<exists>h'. entries_of (history (snd (add_recipe recipe_data now s))) = Some h'
      \<and> (\<forall>e\<in>set h'. distinct (ingredients e))"
proof -
  let ?e = "\<lparr>recipe = recipe_data, timestamp = now,
             ingredients = selected_ingredients s, likes = 0,
             dietary_tags = fst (get_dietary_tags s)\<rparr>"
  from assms(1) obtain xs where list: "history s = JList xs" and xs: "those_entries xs = Some h"
    by (cases "history s") simp_all
  have "entry_of (entry_json ?e) = Some ?e"
    by (rule entry_of_entry_json) simp
  with xs have "those_entries (xs @ [entry_json ?e]) = Some (h @ [?e])"
    by (rule those_entries_append)
  then have "entries_of (history (snd (add_recipe recipe_data now s))) = Some (h @ [?e])"
    unfolding add_recipe_history [OF list] by simp
  moreover have "\<forall>e\<in>set (h @ [?e]). distinct (ingredients e)"
    using assms(2,3) by simp
  ultimately show ?thesis by blast
qed

text \<open>
  C1, as amended. The loops of \<^verbatim>\<open>main\<close> do not deduplicate a selection before pairing.
  For names \<open>a < b\<close>, the count of the pair \<open>(a, b)\<close> is the sum over the entries of
  the number of occurrences of \<open>a\<close> times the number of occurrences of \<open>b\<close> in the
  entry's selection; a pair that is not in this order is never counted. When no entry
  of the history holds a name twice, every pair is counted exactly once for each entry
  that holds both names, which is the count the specification describes. The
  selections the program stores are of this kind: \<open>select_items\<close> never appends a name
  twice (\<open>select_items_distinct\<close>, \<open>add_recipe_distinct\<close>).
\<close>

theorem combinations_counts:
  "(a < b \<longrightarrow> pair_count (combinations h) (a, b) =
       (\<Sum>e\<leftarrow>h. int (count_list (ingredients e) a) * int (count_list (ingredients e) b)))
   \<and> (\<not> a < b \<longrightarrow> pair_count (combinations h) (a, b) = 0)
   \<and> ((\<forall>e\<in>set h. distinct (ingredients e)) \<longrightarrow>
        pair_count (combinations h) (a, b) = spec_pair_count h (a, b))"
proof (intro conjI impI)
  assume "a < b"
  then have "pair_count (combinations h) (a, b) =
      int (\<Sum>e\<leftarrow>h. count_list (ingredients e) a * count_list (ingredients e) b)"
    by (simp add: pair_count_combinations count_history_pairs)
  also have "\<dots> = (\<Sum>e\<leftarrow>h. int (count_list (ingredients e) a) * int (count_list (ingredients e) b))"
    by (induction h) simp_all
  finally show "pair_count (combinations h) (a, b) =
       (\<Sum>e\<leftarrow>h. int (count_list (ingredients e) a) * int (count_list (ingredients e) b))" .
next
  assume "\<not> a < b"
  then show "pair_count (combinations h) (a, b) = 0"
    by (simp add: pair_count_combinations count_history_pairs)
next
  assume "\<forall>e\<in>set h. distinct (ingredients e)"
  then show "pair_count (combinations h) (a, b) = spec_pair_count h (a, b)"
    by (simp add: pair_count_combinations count_history_pairs spec_pair_count_eq
        sum_products_distinct)
qed

text \<open>An instance: two entries without repeated names, both holding Eggs and Rice.\<close>

theorem combinations_counts_witness:
  "pair_count (combinations
      [\<lparr>recipe = ''Fried rice'', timestamp = ''2024-01-01T10:00:00'',
        ingredients = [''Eggs'', ''Rice''], likes = 0, dietary_tags = []\<rparr>,
       \<lparr>recipe = ''Shakshuka'', timestamp = ''2024-01-02T10:00:00'',
        ingredients = [''Rice'', ''Tomato'', ''Eggs''], likes = 0, dietary_tags = []\<rparr>])
      (''Eggs'', ''Rice'') = 2
   \<and> pair_count (combinations
      [\<lparr>recipe = ''Fried rice'', timestamp = ''2024-01-01T10:00:00'',
        ingredients = [''Eggs'', ''Rice''], likes = 0, dietary_tags = []\<rparr>,
       \<lparr>recipe = ''Shakshuka'', timestamp = ''2024-01-02T10:00:00'',
        ingredients = [''Rice'', ''Tomato'', ''Eggs''], likes = 0, dietary_tags = []\<rparr>])
      (''Rice'', ''Eggs'') = 0"
proof -
  let ?h = "[\<lparr>recipe = ''Fried rice'', timestamp = ''2024-01-01T10:00:00'',
        ingredients = [''Eggs'', ''Rice''], likes = 0, dietary_tags = []\<rparr>,
       \<lparr>recipe = ''Shakshuka'', timestamp = ''2024-01-02T10:00:00'',
        ingredients = [''Rice'', ''Tomato'', ''Eggs''], likes = 0, dietary_tags = []\<rparr>]"
  have lt: "''Eggs'' < ''Rice''" by simp
  have nlt: "\<not> ''Rice'' < ''Eggs''" by simp
  have d: "\<forall>e\<in>set ?h. distinct (ingredients e)" by simp
  have spec: "spec_pair_count ?h (''Eggs'', ''Rice'') = 2"
    by (simp add: spec_pair_count_def)
  have "pair_count (combinations ?h) (''Eggs'', ''Rice'') = spec_pair_count ?h (''Eggs'', ''Rice'')"
    by (rule combinations_counts [of "''Eggs''" "''Rice''" ?h, THEN conjunct2, THEN conjunct2, THEN mp, OF d])
  moreover have "pair_count (combinations ?h) (''Eggs'', ''Rice'') =
      (\<Sum>e\<leftarrow>?h. int (count_list (ingredients e) ''Eggs'') * int (count_list (ingredients e) ''Rice''))"
    by (rule combinations_counts [of "''Eggs''" "''Rice''" ?h, THEN conjunct1, THEN mp, OF lt])
  moreover have "pair_count (combinations ?h) (''Rice'', ''Eggs'') = 0"
    by (rule combinations_counts [of "''Rice''" "''Eggs''" ?h, THEN conjunct2, THEN conjunct1, THEN mp, OF nlt])
  ultimately show ?thesis
    unfolding spec by simp
qed

text \<open>
  C1 as stated fails: an entry that holds Eggs twice and Rice once counts the pair
  twice, where one count per entry is claimed.
\<close>

theorem dedupe_before_pairing_counterexample:
  "pair_count (combinations
      [\<lparr>recipe = ''Fried rice'', timestamp = ''2024-01-01T10:00:00'',
        ingredients = [''Eggs'', ''Eggs'', ''Rice''], likes = 0, dietary_tags = []\<rparr>])
      (''Eggs'', ''Rice'') = 2
   \<and> spec_pair_count
      [\<lparr>recipe = ''Fried rice'', timestamp = ''2024-01-01T10:00:00'',
        ingredients = [''Eggs'', ''Eggs'', ''Rice''], likes = 0, dietary_tags = []\<rparr>]
      (''Eggs'', ''Rice'') = 1"
  by (simp add: combinations_def entry_combinations_def pair_count_def spec_pair_count_def)

text \<open>
  C2. The ranking shown by \<^verbatim>\<open>main\<close> is in descending order of count. It is the first
  \<open>k\<close> elements (3 in the source) of the stable descending sort of the counter, so
  pairs of equal count keep the order of the counter, and the counter lists the pairs in
  the order in which the loops first meet them, entries in history order and pairs in
  loop order within an entry, each with the number of times it was met. The empty
  history gives the empty list. When the counter holds at most \<open>k\<close> pairs, all of them
  are returned. For selections \<open>[A, B]\<close>, \<open>[A, B]\<close>, \<open>[A, C]\<close> with \<open>A < B < C\<close> the
  result for \<open>k = 2\<close>, and for the source's 3, is \<open>[((A, B), 2), ((A, C), 1)]\<close>.
\<close>

theorem top_combos_ranking:
  "sorted_wrt (\<lambda>x y. snd y \<le> snd x) (top_combos_upto k h)
   \<and> top_combos_upto k h = take k (sorted_reverse snd (combinations h))
   \<and> filter (\<lambda>x. snd x = c) (sorted_reverse snd (combinations h))
       = filter (\<lambda>x. snd x = c) (combinations h)
   \<and> combinations h =
       map (\<lambda>p. (p, int (count_list (history_pairs h) p))) (first_seen (history_pairs h))
   \<and> top_combos_upto k [] = []
   \<and> (length (combinations h) \<le> k \<longrightarrow>
        length (top_combos_upto k h) = length (combinations h)
        \<and> set (top_combos_upto k h) = set (combinations h))
   \<and> (A < B \<and> B < C \<and> ingredients e1 = [A, B] \<and> ingredients e2 = [A, B]
        \<and> ingredients e3 = [A, C] \<longrightarrow>
        top_combos_upto 2 [e1, e2, e3] = [((A, B), 2), ((A, C), 1)]
        \<and> top_combos [e1, e2, e3] = [((A, B), 2), ((A, C), 1)])
   \<and> top_combos h = top_combos_upto 3 h"
proof -
  have desc: "sorted_wrt (\<lambda>x y. snd y \<le> snd x) (top_combos_upto k h)"
    unfolding top_combos_upto_eq
    by (rule sorted_wrt_take_prefix) (rule sorted_reverse_descending)
  have empty: "top_combos_upto k [] = []"
    by (simp add: top_combos_upto_def)
  have all: "length (combinations h) \<le> k \<longrightarrow>
        length (top_combos_upto k h) = length (combinations h)
        \<and> set (top_combos_upto k h) = set (combinations h)"
    unfolding top_combos_upto_eq
    by (simp add: length_sorted_reverse set_sorted_reverse)
  have example: "A < B \<and> B < C \<and> ingredients e1 = [A, B] \<and> ingredients e2 = [A, B]
        \<and> ingredients e3 = [A, C] \<longrightarrow>
        top_combos_upto 2 [e1, e2, e3] = [((A, B), 2), ((A, C), 1)]
        \<and> top_combos [e1, e2, e3] = [((A, B), 2), ((A, C), 1)]"
    using example_three_entries by blast
  have three: "top_combos h = top_combos_upto 3 h"
    by (simp add: top_combos_def)
  show ?thesis
    by (intro conjI) (rule desc, rule top_combos_upto_eq, rule sorted_reverse_stable,
        rule combinations_tally, rule empty, rule all, rule example, rule three)
qed

text \<open>An instance with Basil, Garlic and Tomato.\<close>

theorem top_combos_ranking_witness:
  "top_combos_upto 2
      [\<lparr>recipe = ''Pesto'', timestamp = ''2024-01-01T10:00:00'',
        ingredients = [''Basil'', ''Garlic''], likes = 0, dietary_tags = []\<rparr>,
       \<lparr>recipe = ''Aioli'', timestamp = ''2024-01-02T10:00:00'',
        ingredients = [''Basil'', ''Garlic''], likes = 0, dietary_tags = []\<rparr>,
       \<lparr>recipe = ''Caprese'', timestamp = ''2024-01-03T10:00:00'',
        ingredients = [''Basil'', ''Tomato''], likes = 0, dietary_tags = []\<rparr>]
     = [((''Basil'', ''Garlic''), 2), ((''Basil'', ''Tomato''), 1)]
   \<and> set (top_combos_upto 2
      [\<lparr>recipe = ''Pesto'', timestamp = ''2024-01-01T10:00:00'',
        ingredients = [''Basil'', ''Garlic''], likes = 0, dietary_tags = []\<rparr>,
       \<lparr>recipe = ''Aioli'', timestamp = ''2024-01-02T10:00:00'',
        ingredients = [''Basil'', ''Garlic''], likes = 0, dietary_tags = []\<rparr>,
       \<lparr>recipe = ''Caprese'', timestamp = ''2024-01-03T10:00:00'',
        ingredients = [''Basil'', ''Tomato''], likes = 0, dietary_tags = []\<rparr>])
     = set (combinations
      [\<lparr>recipe = ''Pesto'', timestamp = ''2024-01-01T10:00:00'',
        ingredients = [''Basil'', ''Garlic''], likes = 0, dietary_tags = []\<rparr>,
       \<lparr>recipe = ''Aioli'', timestamp = ''2024-01-02T10:00:00'',
        ingredients = [''Basil'', ''Garlic''], likes = 0, dietary_tags = []\<rparr>,
       \<lparr>recipe = ''Caprese'', timestamp = ''2024-01-03T10:00:00'',
        ingredients = [''Basil'', ''Tomato''], likes = 0, dietary_tags = []\<rparr>])"
proof -
  let ?e1 = "\<lparr>recipe = ''Pesto'', timestamp = ''2024-01-01T10:00:00'',
        ingredients = [''Basil'', ''Garlic''], likes = 0, dietary_tags = []\<rparr>"
  let ?e2 = "\<lparr>recipe = ''Aioli'', timestamp = ''2024-01-02T10:00:00'',
        ingredients = [''Basil'', ''Garlic''], likes = 0, dietary_tags = []\<rparr>"
  let ?e3 = "\<lparr>recipe = ''Caprese'', timestamp = ''2024-01-03T10:00:00'',
        ingredients = [''Basil'', ''Tomato''], likes = 0, dietary_tags = []\<rparr>"
  note ranking = top_combos_ranking [of 2 "[?e1, ?e2, ?e3]" 0 "''Basil''" "''Garlic''" "''Tomato''"
      ?e1 ?e2 ?e3]
  have hyp: "''Basil'' < ''Garlic'' \<and> ''Garlic'' < ''Tomato'' \<and> ingredients ?e1 = [''Basil'', ''Garlic'']
      \<and> ingredients ?e2 = [''Basil'', ''Garlic''] \<and> ingredients ?e3 = [''Basil'', ''Tomato'']"
    by simp
  have fewer: "length (combinations [?e1, ?e2, ?e3]) \<le> 2"
    by (simp add: combinations_def entry_combinations_def)
  have "top_combos_upto 2 [?e1, ?e2, ?e3] = [((''Basil'', ''Garlic''), 2), ((''Basil'', ''Tomato''), 1)]
      \<and> top_combos [?e1, ?e2, ?e3] = [((''Basil'', ''Garlic''), 2), ((''Basil'', ''Tomato''), 1)]"
    by (rule ranking [THEN conjunct2, THEN conjunct2, THEN conjunct2, THEN conjunct2,
          THEN conjunct2, THEN conjunct2, THEN conjunct1, THEN mp, OF hyp])
  moreover have "length (top_combos_upto 2 [?e1, ?e2, ?e3]) = length (combinations [?e1, ?e2, ?e3])
      \<and> set (top_combos_upto 2 [?e1, ?e2, ?e3]) = set (combinations [?e1, ?e2, ?e3])"
    by (rule ranking [THEN conjunct2, THEN conjunct2, THEN conjunct2, THEN conjunct2,
          THEN conjunct2, THEN conjunct1, THEN mp, OF fewer])
  ultimately show ?thesis by blast
qed

end
